theory Spec2Isabelle
  imports Main "HOL-Library.Char_ord"
begin

section \<open>Data model of the hardware observer charm\<close>

text \<open>
  The charm (\<^verbatim>\<open>src/charm.py\<close>, class \<^verbatim>\<open>HardwareObserverCharm\<close>) is an event handler
  object: each handler reads the persisted flags, talks to collaborators that live
  outside the file (tool helper, exporter service, redfish client, the event itself)
  and writes the unit status. The embedding passes the charm's state explicitly and
  returns it updated; a raised exception is the \<open>Inl\<close> branch of the result, together
  with the state reached when it was raised.
\<close>

datatype status =
    MaintenanceStatus string
  | BlockedStatus string
  | ActiveStatus string

text \<open>
  Exceptions. \<open>BaseExc\<close> stands for the exceptions outside the \<^verbatim>\<open>Exception\<close> hierarchy
  (\<^verbatim>\<open>KeyboardInterrupt\<close>, \<^verbatim>\<open>SystemExit\<close>), which \<^verbatim>\<open>except Exception\<close> does not catch.
  \<open>ExporterError\<close> carries its message and its \<^verbatim>\<open>__cause__\<close> (set by \<^verbatim>\<open>raise ... from err\<close>).
\<close>

text \<open>
  Modelled from the spec: the class \<^verbatim>\<open>ExporterError\<close> is declared in \<^verbatim>\<open>service.py\<close>, outside
  \<^verbatim>\<open>charm.py\<close>. It is the fatal condition of the restart supervisor, taken as an ordinary
  subclass of \<^verbatim>\<open>Exception\<close>, so that \<^verbatim>\<open>except Exception\<close> catches it.
\<close>

datatype exn =
    InvalidCredentialsError string
  | OtherException string
  | BaseExc string
  | ExporterError string "exn option"

fun is_Exception :: "exn \<Rightarrow> bool" where
  "is_Exception (BaseExc _) = False"
| "is_Exception _ = True"

text \<open>
  Modelled from the spec: the enumeration \<^verbatim>\<open>HWTool\<close> is declared in \<^verbatim>\<open>config.py\<close>, outside
  \<^verbatim>\<open>charm.py\<close>. The charm only tests membership of \<^verbatim>\<open>HWTool.REDFISH\<close>, the tool whose
  absence means that the node has no redfish.
\<close>

datatype hwtool = REDFISH | OTHER_TOOL string

text \<open>The dictionary returned by \<^verbatim>\<open>get_redfish_conn_params\<close>, as an association list.\<close>

type_synonym conn_params = "(string \<times> string) list"

definition dict_get :: "conn_params \<Rightarrow> string \<Rightarrow> string \<Rightarrow> string" where
  "dict_get d k dflt = (case map_of d k of Some v \<Rightarrow> v | None \<Rightarrow> dflt)"

text \<open>
  The constants that \<^verbatim>\<open>charm.py\<close> imports from \<^verbatim>\<open>config.py\<close> are parameters of the model.
\<close>

record constants =
  EXPORTER_CRASH_MSG :: string
  EXPORTER_HEALTH_RETRY_COUNT :: int
  EXPORTER_HEALTH_RETRY_TIMEOUT :: int
  REDFISH_MAX_RETRY :: int
  REDFISH_TIMEOUT :: int

text \<open>The configuration options read through \<^verbatim>\<open>self.model.config\<close>.\<close>

record charm_config =
  exporter_port :: int
  exporter_log_level :: string
  collect_timeout :: int
  redfish_username :: "string option"
  redfish_password :: "string option"

text \<open>
  Every call that leaves \<^verbatim>\<open>charm.py\<close>, with the arguments the charm passes. The charm's
  state records the calls made so far, oldest first. Calls to the logger are not
  recorded: they have no influence on the control flow.
\<close>

datatype call =
    HwInstall
  | HwRemove
  | HwCheckInstalled
  | ExporterInstall int string conn_params int
  | ExporterUninstall
  | ExporterCheckHealth
  | ExporterCheckActive
  | ExporterRestart
  | ExporterRenderConfig int string conn_params int
  | ExporterEnable
  | ExporterStart
  | ExporterStop
  | ExporterDisable
  | BmcHwVerifier
  | GetBmcAddress
  | RedfishClient string string string int int
  | RedfishLogin nat
  | RedfishLogout nat
  | Sleep int
  | EventDefer

text \<open>
  The charm object during one event: the two persisted flags of \<^verbatim>\<open>_stored\<close>, the unit
  status, the number of cos-agent relations (computed once in \<^verbatim>\<open>__init__\<close> as the length
  of a list, hence a natural number), the configuration and the calls made so far.
\<close>

record charm =
  resource_installed :: bool
  exporter_installed :: bool
  unit_status :: status
  num_cos_agent_relations :: nat
  config :: charm_config
  calls :: "call list"

text \<open>
  The world outside the charm answers each call; the answer may depend on all calls made
  before it, so collaborators with state of their own (an exporter that comes up after the
  second restart, a service that flaps) are covered. An answer is a returned value of the
  type the collaborator declares, or a raised exception. A redfish client object is
  a handle (a natural number); as an object without \<^verbatim>\<open>__bool__\<close> or \<^verbatim>\<open>__len__\<close> it is truthy.

  The built-in \<^verbatim>\<open>str.upper\<close> belongs to that world too. A Python string is held here as the
  bytes of its UTF-8 encoding, and \<^verbatim>\<open>str.upper\<close> follows the case table of the Unicode
  standard (it maps the dotless i, U+0131, to \<^verbatim>\<open>I\<close>, for instance), so it is the parameter
  \<open>str_upper\<close> rather than a function written out here.
\<close>

record env =
  answer_unit :: "call list \<Rightarrow> call \<Rightarrow> exn option"
  answer_bool :: "call list \<Rightarrow> call \<Rightarrow> exn + bool"
  answer_bool_msg :: "call list \<Rightarrow> call \<Rightarrow> exn + bool \<times> string"
  answer_tools :: "call list \<Rightarrow> exn + hwtool list"
  answer_addr :: "call list \<Rightarrow> exn + string"
  answer_client :: "call list \<Rightarrow> call \<Rightarrow> exn + nat"
  str_upper :: "string \<Rightarrow> string"

definition record_call :: "call \<Rightarrow> charm \<Rightarrow> charm" where
  "record_call c s = s\<lparr>calls := calls s @ [c]\<rparr>"

definition call_unit :: "env \<Rightarrow> call \<Rightarrow> charm \<Rightarrow> (exn + unit) \<times> charm" where
  "call_unit E c s =
     ((case answer_unit E (calls s) c of Some e \<Rightarrow> Inl e | None \<Rightarrow> Inr ()), record_call c s)"

definition call_bool :: "env \<Rightarrow> call \<Rightarrow> charm \<Rightarrow> (exn + bool) \<times> charm" where
  "call_bool E c s = (answer_bool E (calls s) c, record_call c s)"

definition call_bool_msg :: "env \<Rightarrow> call \<Rightarrow> charm \<Rightarrow> (exn + bool \<times> string) \<times> charm" where
  "call_bool_msg E c s = (answer_bool_msg E (calls s) c, record_call c s)"

definition bmc_hw_verifier :: "env \<Rightarrow> charm \<Rightarrow> (exn + hwtool list) \<times> charm" where
  "bmc_hw_verifier E s = (answer_tools E (calls s), record_call BmcHwVerifier s)"

definition get_bmc_address :: "env \<Rightarrow> charm \<Rightarrow> (exn + string) \<times> charm" where
  "get_bmc_address E s = (answer_addr E (calls s), record_call GetBmcAddress s)"

definition redfish_client ::
  "env \<Rightarrow> string \<Rightarrow> string \<Rightarrow> string \<Rightarrow> int \<Rightarrow> int \<Rightarrow> charm \<Rightarrow> (exn + nat) \<times> charm" where
  "redfish_client E base_url username password timeout max_retry s =
     (let c = RedfishClient base_url username password timeout max_retry
      in (answer_client E (calls s) c, record_call c s))"

section \<open>Properties of the charm object\<close>

definition exporter_enabled :: "charm \<Rightarrow> bool" where
  "exporter_enabled s = (num_cos_agent_relations s \<noteq> 0)"

definition too_many_cos_agent_relations :: "charm \<Rightarrow> bool" where
  "too_many_cos_agent_relations s = (num_cos_agent_relations s > 1)"

definition get_redfish_conn_params :: "env \<Rightarrow> charm \<Rightarrow> (exn + conn_params) \<times> charm" where
  "get_redfish_conn_params E s =
     (case bmc_hw_verifier E s of
        (Inl e, s1) \<Rightarrow> (Inl e, s1)
      | (Inr bmc_tools, s1) \<Rightarrow>
          if REDFISH \<notin> set bmc_tools then (Inr [], s1)
          else (case get_bmc_address E s1 of
                  (Inl e, s2) \<Rightarrow> (Inl e, s2)
                | (Inr addr, s2) \<Rightarrow>
                    (Inr [(''host'', ''https://'' @ addr),
                          (''username'',
                             case redfish_username (config s2) of Some u \<Rightarrow> u | None \<Rightarrow> ''''),
                          (''password'',
                             case redfish_password (config s2) of Some p \<Rightarrow> p | None \<Rightarrow> '''')],
                     s2)))"

text \<open>
  \<^verbatim>\<open>redfish_conn_params_valid\<close>: \<open>None\<close> when redfish is not available, otherwise whether
  a session login succeeds. The \<^verbatim>\<open>finally\<close> block runs after the login whatever its outcome;
  an exception raised by the logout itself leaves the function. The two \<^verbatim>\<open>except\<close> clauses
  both set the result to \<open>False\<close>; an exception outside \<^verbatim>\<open>Exception\<close> passes through after
  the \<^verbatim>\<open>finally\<close> block. When creating the client raises, \<^verbatim>\<open>redfish_obj\<close> is still \<open>None\<close>
  and there is nothing to log out.
\<close>

definition after_try :: "exn + unit \<Rightarrow> exn + bool option" where
  "after_try r =
     (case r of
        Inr _ \<Rightarrow> Inr (Some True)
      | Inl e \<Rightarrow> if is_Exception e then Inr (Some False) else Inl e)"

definition redfish_conn_params_valid ::
  "env \<Rightarrow> constants \<Rightarrow> charm \<Rightarrow> (exn + bool option) \<times> charm" where
  "redfish_conn_params_valid E K s =
     (case get_redfish_conn_params E s of
        (Inl e, s1) \<Rightarrow> (Inl e, s1)
      | (Inr redfish_conn_params, s1) \<Rightarrow>
          if redfish_conn_params = [] then (Inr None, s1)
          else (case redfish_client E
                       (dict_get redfish_conn_params ''host'' '''')
                       (dict_get redfish_conn_params ''username'' '''')
                       (dict_get redfish_conn_params ''password'' '''')
                       (REDFISH_TIMEOUT K) (REDFISH_MAX_RETRY K) s1 of
                  (Inl e, s2) \<Rightarrow> (after_try (Inl e), s2)
                | (Inr redfish_obj, s2) \<Rightarrow>
                    (case call_unit E (RedfishLogin redfish_obj) s2 of
                       (r, s3) \<Rightarrow>
                         (case call_unit E (RedfishLogout redfish_obj) s3 of
                            (Inl e, s4) \<Rightarrow> (Inl e, s4)
                          | (Inr _, s4) \<Rightarrow> (after_try r, s4)))))"

section \<open>Validation of the exporter configuration\<close>

text \<open>
  What \<^verbatim>\<open>str.upper\<close> does on a string of ASCII characters: the letters a to z become A to Z
  and nothing else changes. \<open>ascii_upper\<close> is used to say how \<open>str_upper\<close> answers on
  such strings; the validator itself calls \<open>str_upper\<close>.
\<close>

definition ascii_upper_char :: "char \<Rightarrow> char" where
  "ascii_upper_char c =
     (if CHR ''a'' \<le> c \<and> c \<le> CHR ''z'' then char_of (of_char c - (32::nat)) else c)"

definition ascii_upper :: "string \<Rightarrow> string" where
  "ascii_upper x = map ascii_upper_char x"

definition allowed_choices :: "string set" where
  "allowed_choices = {''DEBUG'', ''INFO'', ''WARNING'', ''ERROR'', ''CRITICAL''}"

definition invalid_port_msg :: string where
  "invalid_port_msg = ''Invalid config: 'exporter-port'' @ [CHR 0x27]"

definition invalid_level_msg :: string where
  "invalid_level_msg = ''Invalid config: 'exporter-log-level'' @ [CHR 0x27]"

definition invalid_redfish_msg :: string where
  "invalid_redfish_msg =
     ''Invalid config: 'redfish-username' or 'redfish-password'' @ [CHR 0x27]"

definition validate_exporter_configs ::
  "env \<Rightarrow> constants \<Rightarrow> charm \<Rightarrow> (exn + bool \<times> string) \<times> charm" where
  "validate_exporter_configs E K s =
     (let port = exporter_port (config s) in
      if \<not> (1 \<le> port \<and> port \<le> 65535) then (Inr (False, invalid_port_msg), s)
      else
        let level = exporter_log_level (config s) in
        if str_upper E level \<notin> allowed_choices then (Inr (False, invalid_level_msg), s)
        else (case redfish_conn_params_valid E K s of
                (Inl e, s1) \<Rightarrow> (Inl e, s1)
              | (Inr v, s1) \<Rightarrow>
                  if v = Some False then (Inr (False, invalid_redfish_msg), s1)
                  else (Inr (True, ''Exporter config is valid.''), s1)))"

section \<open>Restarting the exporter\<close>

text \<open>One pass through the body of the \<^verbatim>\<open>for\<close> loop: restart, sleep, probe.\<close>

definition restart_attempt :: "env \<Rightarrow> constants \<Rightarrow> charm \<Rightarrow> (exn + bool) \<times> charm" where
  "restart_attempt E K s =
     (case call_unit E ExporterRestart s of
        (Inl e, s1) \<Rightarrow> (Inl e, s1)
      | (Inr _, s1) \<Rightarrow>
          (case call_unit E (Sleep (EXPORTER_HEALTH_RETRY_TIMEOUT K)) s1 of
             (Inl e, s2) \<Rightarrow> (Inl e, s2)
           | (Inr _, s2) \<Rightarrow> call_bool E ExporterCheckActive s2))"

text \<open>The \<^verbatim>\<open>for\<close> loop over \<^verbatim>\<open>range(1, EXPORTER_HEALTH_RETRY_COUNT + 1)\<close>, left by \<^verbatim>\<open>break\<close>.\<close>

fun restart_loop :: "env \<Rightarrow> constants \<Rightarrow> int list \<Rightarrow> charm \<Rightarrow> (exn + unit) \<times> charm" where
  "restart_loop E K [] s = (Inr (), s)"
| "restart_loop E K (i # rest) s =
     (case restart_attempt E K s of
        (Inl e, s1) \<Rightarrow> (Inl e, s1)
      | (Inr active, s1) \<Rightarrow> if active then (Inr (), s1) else restart_loop E K rest s1)"

text \<open>The body of the \<^verbatim>\<open>try\<close> statement: the loop, then one more probe.\<close>

definition restart_exporter_try :: "env \<Rightarrow> constants \<Rightarrow> charm \<Rightarrow> (exn + unit) \<times> charm" where
  "restart_exporter_try E K s =
     (case restart_loop E K [1..EXPORTER_HEALTH_RETRY_COUNT K] s of
        (Inl e, s1) \<Rightarrow> (Inl e, s1)
      | (Inr _, s1) \<Rightarrow>
          (case call_bool E ExporterCheckActive s1 of
             (Inl e, s2) \<Rightarrow> (Inl e, s2)
           | (Inr active, s2) \<Rightarrow>
               if \<not> active then (Inl (ExporterError (EXPORTER_CRASH_MSG K) None), s2)
               else (Inr (), s2)))"

definition restart_exporter :: "env \<Rightarrow> constants \<Rightarrow> charm \<Rightarrow> (exn + unit) \<times> charm" where
  "restart_exporter E K s =
     (case restart_exporter_try E K s of
        (Inl err, s1) \<Rightarrow>
          if is_Exception err then (Inl (ExporterError (EXPORTER_CRASH_MSG K) (Some err)), s1)
          else (Inl err, s1)
      | (Inr _, s1) \<Rightarrow> (Inr (), s1))"

section \<open>Event handlers\<close>

definition on_update_status :: "env \<Rightarrow> constants \<Rightarrow> charm \<Rightarrow> (exn + unit) \<times> charm" where
  "on_update_status E K s =
     (if \<not> resource_installed s then (Inr (), s)
      else if \<not> exporter_enabled s then
        (Inr (), s\<lparr>unit_status := BlockedStatus ''Missing relation: [cos-agent]''\<rparr>)
      else if too_many_cos_agent_relations s then
        (Inr (), s\<lparr>unit_status := BlockedStatus ''Cannot relate to more than one grafana-agent''\<rparr>)
      else
        (case validate_exporter_configs E K s of
           (Inl e, s1) \<Rightarrow> (Inl e, s1)
         | (Inr (config_valid, config_valid_message), s1) \<Rightarrow>
             if \<not> config_valid then
               (Inr (), s1\<lparr>unit_status := BlockedStatus config_valid_message\<rparr>)
             else
               (case call_bool_msg E HwCheckInstalled s1 of
                  (Inl e, s2) \<Rightarrow> (Inl e, s2)
                | (Inr (hw_tool_ok, error_msg), s2) \<Rightarrow>
                    if \<not> hw_tool_ok then (Inr (), s2\<lparr>unit_status := BlockedStatus error_msg\<rparr>)
                    else
                      (case call_bool E ExporterCheckHealth s2 of
                         (Inl e, s3) \<Rightarrow> (Inl e, s3)
                       | (Inr healthy, s3) \<Rightarrow>
                           (case (if \<not> healthy then restart_exporter E K s3 else (Inr (), s3)) of
                              (Inl e, s4) \<Rightarrow> (Inl e, s4)
                            | (Inr _, s4) \<Rightarrow>
                                (Inr (), s4\<lparr>unit_status := ActiveStatus ''Unit is ready''\<rparr>))))))"

definition on_install_or_upgrade :: "env \<Rightarrow> constants \<Rightarrow> charm \<Rightarrow> (exn + unit) \<times> charm" where
  "on_install_or_upgrade E K s =
     (case call_bool_msg E HwInstall
             (s\<lparr>unit_status := MaintenanceStatus ''Installing resources...''\<rparr>) of
        (Inl e, s1) \<Rightarrow> (Inl e, s1)
      | (Inr (installed, msg), s1) \<Rightarrow>
          let s2 = s1\<lparr>resource_installed := installed\<rparr> in
          if \<not> installed then (Inr (), s2\<lparr>unit_status := BlockedStatus msg\<rparr>)
          else
            (case get_redfish_conn_params E
                    (s2\<lparr>unit_status := MaintenanceStatus ''Installing exporter...''\<rparr>) of
               (Inl e, s3) \<Rightarrow> (Inl e, s3)
             | (Inr params, s3) \<Rightarrow>
                 (case call_bool E
                         (ExporterInstall (exporter_port (config s3))
                            (exporter_log_level (config s3)) params (collect_timeout (config s3)))
                         s3 of
                    (Inl e, s4) \<Rightarrow> (Inl e, s4)
                  | (Inr success, s4) \<Rightarrow>
                      let s5 = s4\<lparr>exporter_installed := success\<rparr> in
                      if \<not> success then
                        (Inr (), s5\<lparr>unit_status := BlockedStatus
                           ''Failed to install exporter, please refer to `juju debug-log`''\<rparr>)
                      else on_update_status E K s5)))"

definition on_remove :: "env \<Rightarrow> charm \<Rightarrow> (exn + unit) \<times> charm" where
  "on_remove E s =
     (case call_unit E HwRemove s of
        (Inl e, s1) \<Rightarrow> (Inl e, s1)
      | (Inr _, s1) \<Rightarrow>
          (case call_bool E ExporterUninstall (s1\<lparr>resource_installed := False\<rparr>) of
             (Inl e, s2) \<Rightarrow> (Inl e, s2)
           | (Inr success, s2) \<Rightarrow> (Inr (), s2\<lparr>exporter_installed := \<not> success\<rparr>)))"

text \<open>
  \<^verbatim>\<open>_on_config_changed\<close>: the branch for an incomplete install defers the event and has no
  \<^verbatim>\<open>return\<close>, so control goes on to the test of \<^verbatim>\<open>exporter_enabled\<close>.
\<close>

definition on_config_changed :: "env \<Rightarrow> constants \<Rightarrow> charm \<Rightarrow> (exn + unit) \<times> charm" where
  "on_config_changed E K s =
     (case (if \<not> resource_installed s then call_unit E EventDefer s else (Inr (), s)) of
        (Inl e, s0) \<Rightarrow> (Inl e, s0)
      | (Inr _, s0) \<Rightarrow>
          if exporter_enabled s0 then
            (case validate_exporter_configs E K s0 of
               (Inl e, s1) \<Rightarrow> (Inl e, s1)
             | (Inr (success, message), s1) \<Rightarrow>
                 if \<not> success then (Inr (), s1\<lparr>unit_status := BlockedStatus message\<rparr>)
                 else
                   (case get_redfish_conn_params E s1 of
                      (Inl e, s2) \<Rightarrow> (Inl e, s2)
                    | (Inr params, s2) \<Rightarrow>
                        (case call_bool E
                                (ExporterRenderConfig (exporter_port (config s2))
                                   (exporter_log_level (config s2)) params
                                   (collect_timeout (config s2)))
                                s2 of
                           (Inl e, s3) \<Rightarrow> (Inl e, s3)
                         | (Inr rendered, s3) \<Rightarrow>
                             if \<not> rendered then
                               (Inr (), s3\<lparr>unit_status := BlockedStatus
                                  ''Failed to configure exporter, please check if the server is healthy.''\<rparr>)
                             else
                               (case call_unit E ExporterRestart s3 of
                                  (Inl e, s4) \<Rightarrow> (Inl e, s4)
                                | (Inr _, s4) \<Rightarrow> on_update_status E K s4))))
          else on_update_status E K s0)"

definition on_cos_agent_relation_joined ::
  "env \<Rightarrow> constants \<Rightarrow> charm \<Rightarrow> (exn + unit) \<times> charm" where
  "on_cos_agent_relation_joined E K s =
     (if \<not> resource_installed s \<or> \<not> exporter_installed s then call_unit E EventDefer s
      else
        (case call_unit E ExporterEnable s of
           (Inl e, s1) \<Rightarrow> (Inl e, s1)
         | (Inr _, s1) \<Rightarrow>
             (case call_unit E ExporterStart s1 of
                (Inl e, s2) \<Rightarrow> (Inl e, s2)
              | (Inr _, s2) \<Rightarrow> on_update_status E K s2)))"

definition on_cos_agent_relation_departed ::
  "env \<Rightarrow> constants \<Rightarrow> charm \<Rightarrow> (exn + unit) \<times> charm" where
  "on_cos_agent_relation_departed E K s =
     (case (if exporter_installed s then
              (case call_unit E ExporterStop s of
                 (Inl e, s1) \<Rightarrow> (Inl e, s1)
               | (Inr _, s1) \<Rightarrow> call_unit E ExporterDisable s1)
            else (Inr (), s)) of
        (Inl e, s2) \<Rightarrow> (Inl e, s2)
      | (Inr _, s2) \<Rightarrow> on_update_status E K s2)"

section \<open>States that differ only in the recorded calls\<close>

text \<open>
  \<open>only_calls s s'\<close>: \<open>s'\<close> is \<open>s\<close> except for the calls recorded since; flags, status,
  relation count and configuration are the same.
\<close>

definition only_calls :: "charm \<Rightarrow> charm \<Rightarrow> bool" where
  "only_calls s s' = (s'\<lparr>calls := calls s\<rparr> = s)"

section \<open>Example units and worlds\<close>

definition example_constants :: constants where
  "example_constants =
     \<lparr>EXPORTER_CRASH_MSG = ''Exporter crashed unexpectedly'',
      EXPORTER_HEALTH_RETRY_COUNT = 3,
      EXPORTER_HEALTH_RETRY_TIMEOUT = 3,
      REDFISH_MAX_RETRY = 2,
      REDFISH_TIMEOUT = 10\<rparr>"

definition example_config :: charm_config where
  "example_config =
     \<lparr>exporter_port = 8080, exporter_log_level = ''debug'', collect_timeout = 10,
      redfish_username = Some ''admin'', redfish_password = None\<rparr>"

text \<open>A unit after a successful install, with one cos-agent relation.\<close>

definition example_unit :: charm where
  "example_unit =
     \<lparr>resource_installed = True, exporter_installed = True,
      unit_status = MaintenanceStatus ''Installing exporter...'',
      num_cos_agent_relations = 1, config = example_config, calls = []\<rparr>"

definition unrelated_bad_port_unit :: charm where
  "unrelated_bad_port_unit =
     example_unit\<lparr>num_cos_agent_relations := 0,
                  config := example_config\<lparr>exporter_port := 0\<rparr>\<rparr>"

definition bad_port_unit :: charm where
  "bad_port_unit = example_unit\<lparr>config := example_config\<lparr>exporter_port := 0\<rparr>\<rparr>"

definition verbose_unit :: charm where
  "verbose_unit =
     example_unit\<lparr>config := example_config\<lparr>exporter_log_level := ''verbose''\<rparr>\<rparr>"

text \<open>A unit whose install failed.\<close>

definition not_installed_unit :: charm where
  "not_installed_unit =
     example_unit\<lparr>resource_installed := False, exporter_installed := False,
                  unit_status := BlockedStatus ''Missing resources''\<rparr>"

text \<open>
  Every call succeeds, the exporter is healthy and the node has no redfish. The levels of the
  example units are ASCII strings, on which \<^verbatim>\<open>str.upper\<close> is \<open>ascii_upper\<close>.
\<close>

definition quiet_world :: env where
  "quiet_world =
     \<lparr>answer_unit = (\<lambda>h c. None),
      answer_bool = (\<lambda>h c. Inr True),
      answer_bool_msg = (\<lambda>h c. Inr (True, [])),
      answer_tools = (\<lambda>h. Inr []),
      answer_addr = (\<lambda>h. Inr ''10.0.0.5''),
      answer_client = (\<lambda>h c. Inr 7),
      str_upper = ascii_upper\<rparr>"

text \<open>
  The health check fails, and the exporter is active once \<open>n\<close> restarts have been
  requested.
\<close>

definition exporter_up_after :: "nat \<Rightarrow> env" where
  "exporter_up_after n =
     quiet_world\<lparr>answer_bool :=
       (\<lambda>h c. if c = ExporterCheckHealth then Inr False
              else if c = ExporterCheckActive then
                Inr (n \<le> length (filter (\<lambda>x. x = ExporterRestart) h))
              else Inr True)\<rparr>"

text \<open>
  The exporter is active when probed right after the sleep and gone when probed again
  right after that probe.
\<close>

definition flapping_world :: env where
  "flapping_world =
     quiet_world\<lparr>answer_bool :=
       (\<lambda>h c. if c = ExporterCheckHealth then Inr False
              else if c = ExporterCheckActive then
                Inr (h \<noteq> [] \<and> last h \<noteq> ExporterCheckActive)
              else Inr True)\<rparr>"

text \<open>The exporter is down and the request to restart it raises.\<close>

definition broken_restart_world :: env where
  "broken_restart_world =
     (exporter_up_after 4)\<lparr>answer_unit :=
        (\<lambda>h c. if c = ExporterRestart then Some (OtherException ''restart failed'')
               else None)\<rparr>"

text \<open>A node with redfish; the session login answers as given.\<close>

definition redfish_world :: "exn option \<Rightarrow> env" where
  "redfish_world login_answer =
     quiet_world\<lparr>answer_tools := (\<lambda>h. Inr [OTHER_TOOL ''ipmi_sel'', REDFISH]),
                 answer_unit := (\<lambda>h c. if c = RedfishLogin 7 then login_answer else None)\<rparr>"

text \<open>
  A level spelled with the dotless i (U+0131, the bytes C4 B1 in UTF-8), and a world
  whose \<^verbatim>\<open>str.upper\<close> maps it to \<^verbatim>\<open>INFO\<close>, as Python's does.
\<close>

definition dotless_info :: string where
  "dotless_info = [CHR 0xC4, CHR 0xB1] @ ''nfo''"

definition dotless_info_unit :: charm where
  "dotless_info_unit =
     example_unit\<lparr>config := example_config\<lparr>exporter_log_level := dotless_info\<rparr>\<rparr>"

definition unicode_world :: env where
  "unicode_world =
     quiet_world\<lparr>str_upper := (\<lambda>x. if x = dotless_info then ''INFO'' else ascii_upper x)\<rparr>"

definition failing_uninstall_world :: env where
  "failing_uninstall_world =
     quiet_world\<lparr>answer_bool := (\<lambda>h c. Inr (c \<noteq> ExporterUninstall))\<rparr>"

section \<open>Auxiliary facts\<close>

lemmas model_defs =
  on_update_status_def exporter_enabled_def too_many_cos_agent_relations_def
  validate_exporter_configs_def allowed_choices_def redfish_conn_params_valid_def
  get_redfish_conn_params_def bmc_hw_verifier_def get_bmc_address_def redfish_client_def
  record_call_def call_unit_def call_bool_def call_bool_msg_def restart_exporter_def
  restart_exporter_try_def restart_attempt_def after_try_def dict_get_def

lemmas example_defs =
  example_unit_def example_config_def example_constants_def quiet_world_def
  exporter_up_after_def flapping_world_def unrelated_bad_port_unit_def bad_port_unit_def
  verbose_unit_def not_installed_unit_def redfish_world_def broken_restart_world_def
  failing_uninstall_world_def dotless_info_unit_def unicode_world_def

lemma upto_1_3: "[1..(3::int)] = [1, 2, 3]"
  by code_simp

lemma ascii_upper_debug: "ascii_upper ''debug'' = ''DEBUG''"
  by code_simp

lemma ascii_upper_DEBUG: "ascii_upper ''DEBUG'' = ''DEBUG''"
  by code_simp

lemma ascii_upper_mixed: "ascii_upper ''DeBuG'' = ''DEBUG''"
  by code_simp

lemma ascii_upper_verbose: "ascii_upper ''verbose'' = ''VERBOSE''"
  by code_simp

lemma only_calls_refl [simp]: "only_calls s s"
  by (simp add: only_calls_def)

lemma only_calls_trans: "only_calls s s1 \<Longrightarrow> only_calls s1 s2 \<Longrightarrow> only_calls s s2"
  unfolding only_calls_def by (metis charm.update_convs(6) charm.surjective)

lemma only_calls_fields:
  assumes "only_calls s s'"
  shows "resource_installed s' = resource_installed s"
    and "exporter_installed s' = exporter_installed s"
    and "unit_status s' = unit_status s"
    and "num_cos_agent_relations s' = num_cos_agent_relations s"
    and "config s' = config s"
proof -
  from assms have e: "s'\<lparr>calls := calls s\<rparr> = s" by (simp add: only_calls_def)
  show "resource_installed s' = resource_installed s"
    using arg_cong [OF e, of resource_installed] by simp
  show "exporter_installed s' = exporter_installed s"
    using arg_cong [OF e, of exporter_installed] by simp
  show "unit_status s' = unit_status s"
    using arg_cong [OF e, of unit_status] by simp
  show "num_cos_agent_relations s' = num_cos_agent_relations s"
    using arg_cong [OF e, of num_cos_agent_relations] by simp
  show "config s' = config s"
    using arg_cong [OF e, of config] by simp
qed

lemma only_calls_record_call [simp]: "only_calls s (record_call c s)"
  by (simp add: only_calls_def record_call_def)

lemma only_calls_call_unit: "only_calls s (snd (call_unit E c s))"
  by (simp add: call_unit_def)

lemma only_calls_call_bool: "only_calls s (snd (call_bool E c s))"
  by (simp add: call_bool_def)

lemma only_calls_call_bool_msg: "only_calls s (snd (call_bool_msg E c s))"
  by (simp add: call_bool_msg_def)

lemma only_calls_get_redfish_conn_params: "only_calls s (snd (get_redfish_conn_params E s))"
  by (auto simp: get_redfish_conn_params_def bmc_hw_verifier_def get_bmc_address_def
      only_calls_def record_call_def split: sum.splits)

lemma only_calls_redfish_conn_params_valid:
  "only_calls s (snd (redfish_conn_params_valid E K s))"
proof -
  obtain r s1 where g: "get_redfish_conn_params E s = (r, s1)"
    by (cases "get_redfish_conn_params E s")
  with only_calls_get_redfish_conn_params [of s E] have s1: "only_calls s s1" by simp
  show ?thesis using g s1
    by (auto simp: redfish_conn_params_valid_def redfish_client_def call_unit_def
        only_calls_def record_call_def Let_def split: sum.splits prod.splits)
qed

lemma only_calls_validate_exporter_configs:
  "only_calls s (snd (validate_exporter_configs E K s))"
  using only_calls_redfish_conn_params_valid [of s E K]
  by (auto simp: validate_exporter_configs_def Let_def split: sum.splits prod.splits)

lemma restart_attempt_returns:
  "restart_attempt E K s = (Inr b, s1) \<Longrightarrow>
   s1 = s\<lparr>calls := calls s @ [ExporterRestart, Sleep (EXPORTER_HEALTH_RETRY_TIMEOUT K), ExporterCheckActive]\<rparr>"
  by (auto simp: restart_attempt_def call_unit_def call_bool_def record_call_def split: option.splits)

lemma only_calls_restart_attempt: "only_calls s (snd (restart_attempt E K s))"
  by (auto simp: restart_attempt_def call_unit_def call_bool_def record_call_def only_calls_def
      split: option.splits)

lemma only_calls_restart_loop: "only_calls s (snd (restart_loop E K is s))"
proof (induction "is" arbitrary: s)
  case Nil
  show ?case by simp
next
  case (Cons i rest)
  obtain r s1 where a: "restart_attempt E K s = (r, s1)" by (cases "restart_attempt E K s")
  with only_calls_restart_attempt [of s E K] have s1: "only_calls s s1" by simp
  from Cons.IH [of s1] s1 have "only_calls s (snd (restart_loop E K rest s1))"
    by (rule only_calls_trans [rotated])
  then show ?case using a s1 by (auto split: sum.splits)
qed

lemma only_calls_restart_exporter_try: "only_calls s (snd (restart_exporter_try E K s))"
proof -
  obtain r s1 where a: "restart_loop E K [1..EXPORTER_HEALTH_RETRY_COUNT K] s = (r, s1)"
    by (cases "restart_loop E K [1..EXPORTER_HEALTH_RETRY_COUNT K] s")
  with only_calls_restart_loop [of s E K "[1..EXPORTER_HEALTH_RETRY_COUNT K]"]
  have s1: "only_calls s s1" by simp
  show ?thesis using a s1
    by (auto simp: restart_exporter_try_def call_bool_def record_call_def only_calls_def
        split: sum.splits)
qed

lemma only_calls_restart_exporter: "only_calls s (snd (restart_exporter E K s))"
  using only_calls_restart_exporter_try [of s E K]
  by (auto simp: restart_exporter_def split: sum.splits prod.splits)

section \<open>The update-status evaluator\<close>

text \<open>
  C1. With \<open>resource_installed\<close> true, \<^verbatim>\<open>_on_update_status\<close> applies its checks in a fixed
  order and stops at the first that fails: no relation gives the blocked status
  "Missing relation: [cos-agent]", more than one relation gives "Cannot relate to more
  than one grafana-agent", an invalid configuration gives the validator's reason, a failed
  tool check gives the tool message; otherwise, after the health check and a restart that
  succeeds when it is needed, the status is active with "Unit is ready". The first two
  rules hold whatever the later checks would answer (they make no call at all), the
  third whatever the tool check would answer: the earliest failing rule decides.
\<close>

theorem on_update_status_first_failing_check:
  assumes "resource_installed s"
  shows "(num_cos_agent_relations s = 0 \<longrightarrow>
            on_update_status E K s =
              (Inr (), s\<lparr>unit_status := BlockedStatus ''Missing relation: [cos-agent]''\<rparr>))
       \<and> (1 < num_cos_agent_relations s \<longrightarrow>
            on_update_status E K s =
              (Inr (), s\<lparr>unit_status := BlockedStatus ''Cannot relate to more than one grafana-agent''\<rparr>))
       \<and> (num_cos_agent_relations s = 1 \<and>
          validate_exporter_configs E K s = (Inr (False, reason), s1) \<longrightarrow>
            on_update_status E K s = (Inr (), s1\<lparr>unit_status := BlockedStatus reason\<rparr>))
       \<and> (num_cos_agent_relations s = 1 \<and>
          validate_exporter_configs E K s = (Inr (True, reason), s1) \<and>
          call_bool_msg E HwCheckInstalled s1 = (Inr (False, tool_msg), s2) \<longrightarrow>
            on_update_status E K s = (Inr (), s2\<lparr>unit_status := BlockedStatus tool_msg\<rparr>))
       \<and> (num_cos_agent_relations s = 1 \<and>
          validate_exporter_configs E K s = (Inr (True, reason), s1) \<and>
          call_bool_msg E HwCheckInstalled s1 = (Inr (True, tool_msg), s2) \<and>
          call_bool E ExporterCheckHealth s2 = (Inr True, s3) \<longrightarrow>
            on_update_status E K s = (Inr (), s3\<lparr>unit_status := ActiveStatus ''Unit is ready''\<rparr>))
       \<and> (num_cos_agent_relations s = 1 \<and>
          validate_exporter_configs E K s = (Inr (True, reason), s1) \<and>
          call_bool_msg E HwCheckInstalled s1 = (Inr (True, tool_msg), s2) \<and>
          call_bool E ExporterCheckHealth s2 = (Inr False, s3) \<and>
          restart_exporter E K s3 = (Inr (), s4) \<longrightarrow>
            on_update_status E K s = (Inr (), s4\<lparr>unit_status := ActiveStatus ''Unit is ready''\<rparr>))"
  using assms
  by (simp add: on_update_status_def exporter_enabled_def too_many_cos_agent_relations_def)


theorem on_update_status_first_failing_check_witness:
  "resource_installed unrelated_bad_port_unit \<and>
   num_cos_agent_relations unrelated_bad_port_unit = 0 \<and>
   validate_exporter_configs quiet_world example_constants unrelated_bad_port_unit =
     (Inr (False, invalid_port_msg), unrelated_bad_port_unit) \<and>
   on_update_status quiet_world example_constants unrelated_bad_port_unit =
     (Inr (), unrelated_bad_port_unit\<lparr>unit_status := BlockedStatus ''Missing relation: [cos-agent]''\<rparr>) \<and>
   resource_installed bad_port_unit \<and>
   num_cos_agent_relations bad_port_unit = 1 \<and>
   validate_exporter_configs quiet_world example_constants bad_port_unit =
     (Inr (False, invalid_port_msg), bad_port_unit) \<and>
   on_update_status quiet_world example_constants bad_port_unit =
     (Inr (), bad_port_unit\<lparr>unit_status := BlockedStatus invalid_port_msg\<rparr>)"
proof -
  have a: "resource_installed unrelated_bad_port_unit"
    and a0: "num_cos_agent_relations unrelated_bad_port_unit = 0"
    and b: "resource_installed bad_port_unit"
    and b1: "num_cos_agent_relations bad_port_unit = 1"
    by (simp_all add: example_defs)
  have va: "validate_exporter_configs quiet_world example_constants unrelated_bad_port_unit =
              (Inr (False, invalid_port_msg), unrelated_bad_port_unit)"
    by (simp add: validate_exporter_configs_def example_defs)
  have vb: "validate_exporter_configs quiet_world example_constants bad_port_unit =
              (Inr (False, invalid_port_msg), bad_port_unit)"
    by (simp add: validate_exporter_configs_def example_defs)
  from on_update_status_first_failing_check
         [OF a, where E = quiet_world and K = example_constants] a0
  have ra: "on_update_status quiet_world example_constants unrelated_bad_port_unit =
              (Inr (), unrelated_bad_port_unit\<lparr>unit_status := BlockedStatus ''Missing relation: [cos-agent]''\<rparr>)"
    by simp
  from on_update_status_first_failing_check
         [OF b, where E = quiet_world and K = example_constants
            and reason = invalid_port_msg and ?s1.0 = bad_port_unit] b1 vb
  have rb: "on_update_status quiet_world example_constants bad_port_unit =
              (Inr (), bad_port_unit\<lparr>unit_status := BlockedStatus invalid_port_msg\<rparr>)"
    by simp
  from a a0 va ra b b1 vb rb show ?thesis by simp
qed

text \<open>
  C8. When \<open>resource_installed\<close> is false, \<^verbatim>\<open>_on_update_status\<close> returns normally and the
  charm's state after the call is the state before it: the status set earlier (for
  instance the blocked status of a failed install) is untouched, the persisted flags are
  unchanged and no collaborator was called.
\<close>

theorem on_update_status_not_installed:
  "\<not> resource_installed s \<Longrightarrow> on_update_status E K s = (Inr (), s)"
  by (simp add: on_update_status_def)

theorem on_update_status_not_installed_witness:
  "\<not> resource_installed not_installed_unit \<and>
   on_update_status quiet_world example_constants not_installed_unit = (Inr (), not_installed_unit)"
proof -
  have h: "\<not> resource_installed not_installed_unit" by (simp add: example_defs)
  from on_update_status_not_installed [OF h] h show ?thesis by simp
qed

text \<open>
  C2 (as amended). The status after a returning call of \<^verbatim>\<open>_on_update_status\<close> is determined by
  \<open>resource_installed\<close>, the relation count, the validator's verdict and the tool check's
  verdict, together with the status before the call when \<open>resource_installed\<close> is false:
  two calls that both return normally and agree on these leave the same status. Neither
  \<open>exporter_installed\<close> nor the health of the exporter enters. In particular a second call
  right after a first one, with the checks answering as before, leaves the status of the
  first.
\<close>

theorem on_update_status_status_determined:
  assumes "on_update_status E K s = (Inr (), t)"
      and "on_update_status E' K' s' = (Inr (), t')"
      and "resource_installed s' = resource_installed s"
      and "num_cos_agent_relations s' = num_cos_agent_relations s"
      and "fst (validate_exporter_configs E' K' s') = fst (validate_exporter_configs E K s)"
      and "fst (call_bool_msg E' HwCheckInstalled (snd (validate_exporter_configs E' K' s'))) =
           fst (call_bool_msg E HwCheckInstalled (snd (validate_exporter_configs E K s)))"
      and "\<not> resource_installed s \<Longrightarrow> unit_status s' = unit_status s"
  shows "unit_status t' = unit_status t"
proof (cases "resource_installed s")
  case False
  with assms show ?thesis by (simp add: on_update_status_def)
next
  case True
  obtain v s1 where v: "validate_exporter_configs E K s = (v, s1)"
    by (cases "validate_exporter_configs E K s")
  obtain v' s1' where v': "validate_exporter_configs E' K' s' = (v', s1')"
    by (cases "validate_exporter_configs E' K' s'")
  obtain c s2 where c: "call_bool_msg E HwCheckInstalled s1 = (c, s2)"
    by (cases "call_bool_msg E HwCheckInstalled s1")
  obtain c' s2' where c': "call_bool_msg E' HwCheckInstalled s1' = (c', s2')"
    by (cases "call_bool_msg E' HwCheckInstalled s1'")
  from assms(5) v v' have vv: "v' = v" by simp
  from assms(6) v v' c c' have cc: "c' = c" by simp
  from assms(1) True v c have
    "unit_status t =
       (if num_cos_agent_relations s = 0 then BlockedStatus ''Missing relation: [cos-agent]''
        else if 1 < num_cos_agent_relations s then
          BlockedStatus ''Cannot relate to more than one grafana-agent''
        else case v of Inr (ok, msg) \<Rightarrow>
          if \<not> ok then BlockedStatus msg
          else (case c of Inr (tok, tmsg) \<Rightarrow>
                  if \<not> tok then BlockedStatus tmsg else ActiveStatus ''Unit is ready''))"
    by (auto simp: on_update_status_def exporter_enabled_def too_many_cos_agent_relations_def
        split: if_splits sum.splits prod.splits)
  moreover from assms(2,3,4) True v' c' vv cc have
    "unit_status t' =
       (if num_cos_agent_relations s = 0 then BlockedStatus ''Missing relation: [cos-agent]''
        else if 1 < num_cos_agent_relations s then
          BlockedStatus ''Cannot relate to more than one grafana-agent''
        else case v of Inr (ok, msg) \<Rightarrow>
          if \<not> ok then BlockedStatus msg
          else (case c of Inr (tok, tmsg) \<Rightarrow>
                  if \<not> tok then BlockedStatus tmsg else ActiveStatus ''Unit is ready''))"
    by (auto simp: on_update_status_def exporter_enabled_def too_many_cos_agent_relations_def
        split: if_splits sum.splits prod.splits)
  ultimately show ?thesis by simp
qed

theorem on_update_status_status_determined_witness:
  "on_update_status quiet_world example_constants example_unit =
     (Inr (), example_unit\<lparr>unit_status := ActiveStatus ''Unit is ready'',
        calls := [BmcHwVerifier, HwCheckInstalled, ExporterCheckHealth]\<rparr>) \<and>
   on_update_status quiet_world example_constants
       (example_unit\<lparr>unit_status := ActiveStatus ''Unit is ready'',
          calls := [BmcHwVerifier, HwCheckInstalled, ExporterCheckHealth]\<rparr>) =
     (Inr (), example_unit\<lparr>unit_status := ActiveStatus ''Unit is ready'',
        calls := [BmcHwVerifier, HwCheckInstalled, ExporterCheckHealth,
                  BmcHwVerifier, HwCheckInstalled, ExporterCheckHealth]\<rparr>) \<and>
   unit_status (example_unit\<lparr>unit_status := ActiveStatus ''Unit is ready'',
        calls := [BmcHwVerifier, HwCheckInstalled, ExporterCheckHealth,
                  BmcHwVerifier, HwCheckInstalled, ExporterCheckHealth]\<rparr>) =
     unit_status (example_unit\<lparr>unit_status := ActiveStatus ''Unit is ready'',
        calls := [BmcHwVerifier, HwCheckInstalled, ExporterCheckHealth]\<rparr>) \<and>
   \<not> resource_installed not_installed_unit \<and>
   unit_status (snd (on_update_status quiet_world example_constants
                      (snd (on_update_status quiet_world example_constants not_installed_unit)))) =
     unit_status (snd (on_update_status quiet_world example_constants not_installed_unit))"
proof -
  define t1 where "t1 = example_unit\<lparr>unit_status := ActiveStatus ''Unit is ready'',
        calls := [BmcHwVerifier, HwCheckInstalled, ExporterCheckHealth]\<rparr>"
  define t2 where "t2 = example_unit\<lparr>unit_status := ActiveStatus ''Unit is ready'',
        calls := [BmcHwVerifier, HwCheckInstalled, ExporterCheckHealth,
                  BmcHwVerifier, HwCheckInstalled, ExporterCheckHealth]\<rparr>"
  have r1: "on_update_status quiet_world example_constants example_unit = (Inr (), t1)"
    by (simp add: t1_def model_defs example_defs ascii_upper_debug)
  have r2: "on_update_status quiet_world example_constants t1 = (Inr (), t2)"
    by (simp add: t1_def t2_def model_defs example_defs ascii_upper_debug)
  have f1: "resource_installed t1 = resource_installed example_unit"
    and f2: "num_cos_agent_relations t1 = num_cos_agent_relations example_unit"
    by (simp_all add: t1_def)
  have v: "fst (validate_exporter_configs quiet_world example_constants t1) =
           fst (validate_exporter_configs quiet_world example_constants example_unit)"
    by (simp add: t1_def model_defs example_defs ascii_upper_debug)
  have c: "fst (call_bool_msg quiet_world HwCheckInstalled
                  (snd (validate_exporter_configs quiet_world example_constants t1))) =
           fst (call_bool_msg quiet_world HwCheckInstalled
                  (snd (validate_exporter_configs quiet_world example_constants example_unit)))"
    by (simp add: t1_def model_defs example_defs ascii_upper_debug)
  have p: "\<not> resource_installed example_unit \<Longrightarrow> unit_status t1 = unit_status example_unit"
    by (simp add: example_defs)
  have same: "unit_status t2 = unit_status t1"
    by (rule on_update_status_status_determined [OF r1 r2 f1 f2 v c p])
  define n1 where "n1 = snd (on_update_status quiet_world example_constants not_installed_unit)"
  define n2 where "n2 = snd (on_update_status quiet_world example_constants n1)"
  have ni: "\<not> resource_installed not_installed_unit" by (simp add: example_defs)
  have n1: "n1 = not_installed_unit" by (simp add: n1_def on_update_status_def ni)
  have q1: "on_update_status quiet_world example_constants not_installed_unit = (Inr (), n1)"
    by (simp add: n1 on_update_status_def ni)
  have q2: "on_update_status quiet_world example_constants n1 = (Inr (), n2)"
    by (simp add: n2_def n1 on_update_status_def ni)
  have same_n: "unit_status n2 = unit_status n1"
    by (rule on_update_status_status_determined [OF q1 q2]) (simp_all add: n1)
  from r1 r2 same ni same_n show ?thesis
    by (simp only: t1_def t2_def n1_def n2_def simp_thms)
qed

text \<open>
  The status is not a function of the two flags and the four observed facts alone. With
  \<open>resource_installed\<close> false the call leaves whatever status was there, so two units that
  agree on flags, relations and configuration end with different statuses. And with a failing
  health check the outcome depends on the restart: on a unit where the exporter comes up
  only with the fourth restart, the first call ends in the fatal error and leaves the
  maintenance status, while the second call, under the same flags and facts, sets the
  active status.
\<close>

theorem on_update_status_not_pure_counterexample:
  "resource_installed not_installed_unit =
     resource_installed (not_installed_unit\<lparr>unit_status := MaintenanceStatus ''Installing resources...''\<rparr>) \<and>
   exporter_installed not_installed_unit =
     exporter_installed (not_installed_unit\<lparr>unit_status := MaintenanceStatus ''Installing resources...''\<rparr>) \<and>
   num_cos_agent_relations not_installed_unit =
     num_cos_agent_relations (not_installed_unit\<lparr>unit_status := MaintenanceStatus ''Installing resources...''\<rparr>) \<and>
   config not_installed_unit =
     config (not_installed_unit\<lparr>unit_status := MaintenanceStatus ''Installing resources...''\<rparr>) \<and>
   on_update_status quiet_world example_constants not_installed_unit =
     (Inr (), not_installed_unit) \<and>
   on_update_status quiet_world example_constants
       (not_installed_unit\<lparr>unit_status := MaintenanceStatus ''Installing resources...''\<rparr>) =
     (Inr (), not_installed_unit\<lparr>unit_status := MaintenanceStatus ''Installing resources...''\<rparr>) \<and>
   unit_status not_installed_unit \<noteq>
     unit_status (not_installed_unit\<lparr>unit_status := MaintenanceStatus ''Installing resources...''\<rparr>) \<and>
   fst (on_update_status (exporter_up_after 4) example_constants example_unit) =
     Inl (ExporterError ''Exporter crashed unexpectedly''
            (Some (ExporterError ''Exporter crashed unexpectedly'' None))) \<and>
   unit_status (snd (on_update_status (exporter_up_after 4) example_constants example_unit)) =
     MaintenanceStatus ''Installing exporter...'' \<and>
   on_update_status (exporter_up_after 4) example_constants
       (snd (on_update_status (exporter_up_after 4) example_constants example_unit)) =
     (Inr (), example_unit\<lparr>unit_status := ActiveStatus ''Unit is ready'',
        calls := [BmcHwVerifier, HwCheckInstalled, ExporterCheckHealth,
                  ExporterRestart, Sleep 3, ExporterCheckActive,
                  ExporterRestart, Sleep 3, ExporterCheckActive,
                  ExporterRestart, Sleep 3, ExporterCheckActive, ExporterCheckActive,
                  BmcHwVerifier, HwCheckInstalled, ExporterCheckHealth,
                  ExporterRestart, Sleep 3, ExporterCheckActive, ExporterCheckActive]\<rparr>)"
proof -
  have first: "on_update_status (exporter_up_after 4) example_constants example_unit =
      (Inl (ExporterError ''Exporter crashed unexpectedly''
              (Some (ExporterError ''Exporter crashed unexpectedly'' None))),
       example_unit\<lparr>calls := [BmcHwVerifier, HwCheckInstalled, ExporterCheckHealth,
                  ExporterRestart, Sleep 3, ExporterCheckActive,
                  ExporterRestart, Sleep 3, ExporterCheckActive,
                  ExporterRestart, Sleep 3, ExporterCheckActive, ExporterCheckActive]\<rparr>)"
    by (simp add: model_defs example_defs ascii_upper_debug upto_1_3)
  have second: "on_update_status (exporter_up_after 4) example_constants
       (example_unit\<lparr>calls := [BmcHwVerifier, HwCheckInstalled, ExporterCheckHealth,
                  ExporterRestart, Sleep 3, ExporterCheckActive,
                  ExporterRestart, Sleep 3, ExporterCheckActive,
                  ExporterRestart, Sleep 3, ExporterCheckActive, ExporterCheckActive]\<rparr>) =
     (Inr (), example_unit\<lparr>unit_status := ActiveStatus ''Unit is ready'',
        calls := [BmcHwVerifier, HwCheckInstalled, ExporterCheckHealth,
                  ExporterRestart, Sleep 3, ExporterCheckActive,
                  ExporterRestart, Sleep 3, ExporterCheckActive,
                  ExporterRestart, Sleep 3, ExporterCheckActive, ExporterCheckActive,
                  BmcHwVerifier, HwCheckInstalled, ExporterCheckHealth,
                  ExporterRestart, Sleep 3, ExporterCheckActive, ExporterCheckActive]\<rparr>)"
    by (simp add: model_defs example_defs ascii_upper_debug upto_1_3)
  have a: "on_update_status quiet_world example_constants not_installed_unit =
     (Inr (), not_installed_unit)"
    by (simp add: on_update_status_def example_defs)
  have b: "on_update_status quiet_world example_constants
       (not_installed_unit\<lparr>unit_status := MaintenanceStatus ''Installing resources...''\<rparr>) =
     (Inr (), not_installed_unit\<lparr>unit_status := MaintenanceStatus ''Installing resources...''\<rparr>)"
    by (simp add: on_update_status_def example_defs)
  have c: "unit_status not_installed_unit \<noteq>
     unit_status (not_installed_unit\<lparr>unit_status := MaintenanceStatus ''Installing resources...''\<rparr>)"
    by (simp add: example_defs)
  have d: "unit_status (example_unit\<lparr>calls := [BmcHwVerifier, HwCheckInstalled, ExporterCheckHealth,
                  ExporterRestart, Sleep 3, ExporterCheckActive,
                  ExporterRestart, Sleep 3, ExporterCheckActive,
                  ExporterRestart, Sleep 3, ExporterCheckActive, ExporterCheckActive]\<rparr>) =
     MaintenanceStatus ''Installing exporter...''"
    by (simp add: example_defs)
  show ?thesis
    unfolding first snd_conv fst_conv second a b using c d by simp
qed

text \<open>
  C5. When every check before it passes and the health check fails, an exception raised by
  \<^verbatim>\<open>restart_exporter\<close> leaves \<^verbatim>\<open>_on_update_status\<close> as it is, and the unit status is the one
  from before the call: neither a blocked nor the active status is written. Inside
  \<^verbatim>\<open>restart_exporter\<close>, any exception of the \<^verbatim>\<open>Exception\<close> hierarchy raised in the \<^verbatim>\<open>try\<close>
  block, in particular in the restart loop, is replaced by an \<open>ExporterError\<close> with the
  crash message that carries the original exception as its cause.
\<close>

theorem on_update_status_propagates_restart_failure:
  assumes "resource_installed s"
      and "num_cos_agent_relations s = 1"
      and "validate_exporter_configs E K s = (Inr (True, reason), s1)"
      and "call_bool_msg E HwCheckInstalled s1 = (Inr (True, tool_msg), s2)"
      and "call_bool E ExporterCheckHealth s2 = (Inr False, s3)"
  shows "(restart_exporter E K s3 = (Inl e, s4) \<longrightarrow>
            on_update_status E K s = (Inl e, s4) \<and> unit_status s4 = unit_status s)
       \<and> (restart_exporter_try E K s3 = (Inl err, s4) \<and> is_Exception err \<longrightarrow>
            restart_exporter E K s3 =
              (Inl (ExporterError (EXPORTER_CRASH_MSG K) (Some err)), s4))
       \<and> (restart_loop E K [1..EXPORTER_HEALTH_RETRY_COUNT K] s3 = (Inl err, s4) \<and>
          is_Exception err \<longrightarrow>
            restart_exporter E K s3 =
              (Inl (ExporterError (EXPORTER_CRASH_MSG K) (Some err)), s4))"
proof -
  have "only_calls s s1"
    using only_calls_validate_exporter_configs [of s E K] assms(3) by simp
  moreover have "only_calls s1 s2"
    using only_calls_call_bool_msg [of s1 E HwCheckInstalled] assms(4) by simp
  moreover have "only_calls s2 s3"
    using only_calls_call_bool [of s2 E ExporterCheckHealth] assms(5) by simp
  ultimately have s3: "only_calls s s3" by (blast intro: only_calls_trans)
  have "unit_status s4 = unit_status s" if "restart_exporter E K s3 = (Inl e, s4)"
  proof -
    have "only_calls s3 s4" using only_calls_restart_exporter [of s3 E K] that by simp
    with s3 have "only_calls s s4" by (rule only_calls_trans)
    then show ?thesis by (rule only_calls_fields)
  qed
  then show ?thesis
    using assms
    by (simp add: on_update_status_def exporter_enabled_def too_many_cos_agent_relations_def
        restart_exporter_def restart_exporter_try_def)
qed

theorem on_update_status_propagates_restart_failure_witness:
  "resource_installed example_unit \<and> num_cos_agent_relations example_unit = 1 \<and>
   on_update_status (exporter_up_after 4) example_constants example_unit =
     (Inl (ExporterError ''Exporter crashed unexpectedly''
             (Some (ExporterError ''Exporter crashed unexpectedly'' None))),
      example_unit\<lparr>calls :=
        [BmcHwVerifier, HwCheckInstalled, ExporterCheckHealth,
         ExporterRestart, Sleep 3, ExporterCheckActive,
         ExporterRestart, Sleep 3, ExporterCheckActive,
         ExporterRestart, Sleep 3, ExporterCheckActive, ExporterCheckActive]\<rparr>) \<and>
   is_Exception (OtherException ''restart failed'') \<and>
   restart_exporter broken_restart_world example_constants
       (example_unit\<lparr>calls := [BmcHwVerifier, HwCheckInstalled, ExporterCheckHealth]\<rparr>) =
     (Inl (ExporterError ''Exporter crashed unexpectedly''
             (Some (OtherException ''restart failed''))),
      example_unit\<lparr>calls :=
        [BmcHwVerifier, HwCheckInstalled, ExporterCheckHealth, ExporterRestart]\<rparr>)"
proof -
  define v1 where "v1 = example_unit\<lparr>calls := [BmcHwVerifier]\<rparr>"
  define v2 where "v2 = example_unit\<lparr>calls := [BmcHwVerifier, HwCheckInstalled]\<rparr>"
  define v3 where "v3 = example_unit\<lparr>calls := [BmcHwVerifier, HwCheckInstalled, ExporterCheckHealth]\<rparr>"
  define v4 where "v4 = example_unit\<lparr>calls :=
        [BmcHwVerifier, HwCheckInstalled, ExporterCheckHealth,
         ExporterRestart, Sleep 3, ExporterCheckActive,
         ExporterRestart, Sleep 3, ExporterCheckActive,
         ExporterRestart, Sleep 3, ExporterCheckActive, ExporterCheckActive]\<rparr>"
  define x4 where "x4 = example_unit\<lparr>calls :=
        [BmcHwVerifier, HwCheckInstalled, ExporterCheckHealth, ExporterRestart]\<rparr>"
  have i: "resource_installed example_unit" and n: "num_cos_agent_relations example_unit = 1"
    by (simp_all add: example_defs)
  have m: "EXPORTER_CRASH_MSG example_constants = ''Exporter crashed unexpectedly''"
    by (simp add: example_defs)
  have va: "validate_exporter_configs (exporter_up_after 4) example_constants example_unit =
              (Inr (True, ''Exporter config is valid.''), v1)"
    and ta: "call_bool_msg (exporter_up_after 4) HwCheckInstalled v1 = (Inr (True, []), v2)"
    and ha: "call_bool (exporter_up_after 4) ExporterCheckHealth v2 = (Inr False, v3)"
    by (simp_all add: v1_def v2_def v3_def model_defs example_defs ascii_upper_debug)
  have ra: "restart_exporter (exporter_up_after 4) example_constants v3 =
     (Inl (ExporterError ''Exporter crashed unexpectedly''
             (Some (ExporterError ''Exporter crashed unexpectedly'' None))), v4)"
    by (simp add: v3_def v4_def model_defs example_defs upto_1_3)
  from on_update_status_propagates_restart_failure [OF i n va ta ha, THEN conjunct1] ra
  have dead: "on_update_status (exporter_up_after 4) example_constants example_unit =
     (Inl (ExporterError ''Exporter crashed unexpectedly''
             (Some (ExporterError ''Exporter crashed unexpectedly'' None))), v4)"
    by simp
  have vb: "validate_exporter_configs broken_restart_world example_constants example_unit =
              (Inr (True, ''Exporter config is valid.''), v1)"
    and tb: "call_bool_msg broken_restart_world HwCheckInstalled v1 = (Inr (True, []), v2)"
    and hb: "call_bool broken_restart_world ExporterCheckHealth v2 = (Inr False, v3)"
    by (simp_all add: v1_def v2_def v3_def model_defs example_defs ascii_upper_debug)
  have lb: "restart_loop broken_restart_world example_constants
              [1..EXPORTER_HEALTH_RETRY_COUNT example_constants] v3 =
            (Inl (OtherException ''restart failed''), x4)"
    by (simp add: v3_def x4_def model_defs example_defs upto_1_3)
  have e: "is_Exception (OtherException ''restart failed'')" by simp
  from on_update_status_propagates_restart_failure
         [OF i n vb tb hb, where err = "OtherException ''restart failed''" and ?s4.0 = x4,
          THEN conjunct2, THEN conjunct2] lb e
  have wrapped: "restart_exporter broken_restart_world example_constants v3 =
     (Inl (ExporterError ''Exporter crashed unexpectedly''
             (Some (OtherException ''restart failed''))), x4)"
    by (simp add: m)
  from i n dead e wrapped show ?thesis by (simp add: v3_def v4_def x4_def)
qed

section \<open>The restart supervisor\<close>

text \<open>
  C4 (as amended). With a retry count of 3: when three attempts (restart, sleep, probe)
  all end with an inactive exporter and the probe after the loop finds it inactive as well,
  \<^verbatim>\<open>restart_exporter\<close> has requested exactly three restarts and raises one \<open>ExporterError\<close>
  with the crash message (its cause is the \<open>ExporterError\<close> raised inside the \<^verbatim>\<open>try\<close> block).
  When the probe of attempt 1, 2 or 3 finds the exporter active, the loop stops after that
  attempt, and the probe after the loop decides: active, and the function returns normally;
  inactive, and the same fatal error is raised.
\<close>

theorem restart_exporter_three_attempts:
  assumes "EXPORTER_HEALTH_RETRY_COUNT K = 3"
  shows "(restart_attempt E K s = (Inr False, s1) \<and>
          restart_attempt E K s1 = (Inr False, s2) \<and>
          restart_attempt E K s2 = (Inr False, s3) \<and>
          call_bool E ExporterCheckActive s3 = (Inr False, s4) \<longrightarrow>
            restart_exporter E K s =
              (Inl (ExporterError (EXPORTER_CRASH_MSG K)
                      (Some (ExporterError (EXPORTER_CRASH_MSG K) None))), s4) \<and>
            calls s4 = calls s @
              [ExporterRestart, Sleep (EXPORTER_HEALTH_RETRY_TIMEOUT K), ExporterCheckActive,
               ExporterRestart, Sleep (EXPORTER_HEALTH_RETRY_TIMEOUT K), ExporterCheckActive,
               ExporterRestart, Sleep (EXPORTER_HEALTH_RETRY_TIMEOUT K), ExporterCheckActive,
               ExporterCheckActive])
       \<and> (restart_attempt E K s = (Inr True, s1) \<and>
          call_bool E ExporterCheckActive s1 = (Inr still_active, s2) \<longrightarrow>
            restart_exporter E K s =
              (if still_active then Inr ()
               else Inl (ExporterError (EXPORTER_CRASH_MSG K)
                           (Some (ExporterError (EXPORTER_CRASH_MSG K) None))), s2) \<and>
            calls s2 = calls s @
              [ExporterRestart, Sleep (EXPORTER_HEALTH_RETRY_TIMEOUT K), ExporterCheckActive,
               ExporterCheckActive])
       \<and> (restart_attempt E K s = (Inr False, s1) \<and>
          restart_attempt E K s1 = (Inr True, s2) \<and>
          call_bool E ExporterCheckActive s2 = (Inr still_active, s3) \<longrightarrow>
            restart_exporter E K s =
              (if still_active then Inr ()
               else Inl (ExporterError (EXPORTER_CRASH_MSG K)
                           (Some (ExporterError (EXPORTER_CRASH_MSG K) None))), s3) \<and>
            calls s3 = calls s @
              [ExporterRestart, Sleep (EXPORTER_HEALTH_RETRY_TIMEOUT K), ExporterCheckActive,
               ExporterRestart, Sleep (EXPORTER_HEALTH_RETRY_TIMEOUT K), ExporterCheckActive,
               ExporterCheckActive])
       \<and> (restart_attempt E K s = (Inr False, s1) \<and>
          restart_attempt E K s1 = (Inr False, s2) \<and>
          restart_attempt E K s2 = (Inr True, s3) \<and>
          call_bool E ExporterCheckActive s3 = (Inr still_active, s4) \<longrightarrow>
            restart_exporter E K s =
              (if still_active then Inr ()
               else Inl (ExporterError (EXPORTER_CRASH_MSG K)
                           (Some (ExporterError (EXPORTER_CRASH_MSG K) None))), s4) \<and>
            calls s4 = calls s @
              [ExporterRestart, Sleep (EXPORTER_HEALTH_RETRY_TIMEOUT K), ExporterCheckActive,
               ExporterRestart, Sleep (EXPORTER_HEALTH_RETRY_TIMEOUT K), ExporterCheckActive,
               ExporterRestart, Sleep (EXPORTER_HEALTH_RETRY_TIMEOUT K), ExporterCheckActive,
               ExporterCheckActive])"
proof -
  have probe: "\<And>u b u'. call_bool E ExporterCheckActive u = (Inr b, u') \<Longrightarrow>
                 calls u' = calls u @ [ExporterCheckActive]"
    by (auto simp: call_bool_def record_call_def)
  have att: "\<And>u b u'. restart_attempt E K u = (Inr b, u') \<Longrightarrow>
               calls u' = calls u @
                 [ExporterRestart, Sleep (EXPORTER_HEALTH_RETRY_TIMEOUT K), ExporterCheckActive]"
    by (drule restart_attempt_returns) simp
  show ?thesis
    using assms
    by (auto simp: restart_exporter_def restart_exporter_try_def upto_1_3 dest!: att probe)
qed

theorem restart_exporter_three_attempts_witness:
  "EXPORTER_HEALTH_RETRY_COUNT example_constants = 3 \<and>
   restart_exporter (exporter_up_after 4) example_constants example_unit =
     (Inl (ExporterError ''Exporter crashed unexpectedly''
             (Some (ExporterError ''Exporter crashed unexpectedly'' None))),
      example_unit\<lparr>calls :=
        [ExporterRestart, Sleep 3, ExporterCheckActive,
         ExporterRestart, Sleep 3, ExporterCheckActive,
         ExporterRestart, Sleep 3, ExporterCheckActive, ExporterCheckActive]\<rparr>) \<and>
   restart_exporter (exporter_up_after 2) example_constants example_unit =
     (Inr (), example_unit\<lparr>calls :=
        [ExporterRestart, Sleep 3, ExporterCheckActive,
         ExporterRestart, Sleep 3, ExporterCheckActive, ExporterCheckActive]\<rparr>)"
proof -
  define u1 where "u1 = example_unit\<lparr>calls := [ExporterRestart, Sleep 3, ExporterCheckActive]\<rparr>"
  define u2 where "u2 = example_unit\<lparr>calls :=
        [ExporterRestart, Sleep 3, ExporterCheckActive,
         ExporterRestart, Sleep 3, ExporterCheckActive]\<rparr>"
  define u3 where "u3 = example_unit\<lparr>calls :=
        [ExporterRestart, Sleep 3, ExporterCheckActive,
         ExporterRestart, Sleep 3, ExporterCheckActive,
         ExporterRestart, Sleep 3, ExporterCheckActive]\<rparr>"
  define u4 where "u4 = example_unit\<lparr>calls :=
        [ExporterRestart, Sleep 3, ExporterCheckActive,
         ExporterRestart, Sleep 3, ExporterCheckActive,
         ExporterRestart, Sleep 3, ExporterCheckActive, ExporterCheckActive]\<rparr>"
  define w3 where "w3 = example_unit\<lparr>calls :=
        [ExporterRestart, Sleep 3, ExporterCheckActive,
         ExporterRestart, Sleep 3, ExporterCheckActive, ExporterCheckActive]\<rparr>"
  have k: "EXPORTER_HEALTH_RETRY_COUNT example_constants = 3"
    by (simp add: example_defs)
  have a1: "restart_attempt (exporter_up_after 4) example_constants example_unit = (Inr False, u1)"
    and a2: "restart_attempt (exporter_up_after 4) example_constants u1 = (Inr False, u2)"
    and a3: "restart_attempt (exporter_up_after 4) example_constants u2 = (Inr False, u3)"
    and a4: "call_bool (exporter_up_after 4) ExporterCheckActive u3 = (Inr False, u4)"
    by (simp_all add: u1_def u2_def u3_def u4_def model_defs example_defs)
  have b1: "restart_attempt (exporter_up_after 2) example_constants example_unit = (Inr False, u1)"
    and b2: "restart_attempt (exporter_up_after 2) example_constants u1 = (Inr True, u2)"
    and b3: "call_bool (exporter_up_after 2) ExporterCheckActive u2 = (Inr True, w3)"
    by (simp_all add: u1_def u2_def w3_def model_defs example_defs)
  note t = restart_exporter_three_attempts [OF k]
  from t [where E = "exporter_up_after 4" and s = example_unit and ?s1.0 = u1 and ?s2.0 = u2
             and ?s3.0 = u3 and ?s4.0 = u4, THEN conjunct1] a1 a2 a3 a4
  have dead: "restart_exporter (exporter_up_after 4) example_constants example_unit =
     (Inl (ExporterError (EXPORTER_CRASH_MSG example_constants)
             (Some (ExporterError (EXPORTER_CRASH_MSG example_constants) None))), u4)"
    by simp
  from t [where E = "exporter_up_after 2" and s = example_unit and ?s1.0 = u1 and ?s2.0 = u2
             and ?s3.0 = w3 and still_active = True,
          THEN conjunct2, THEN conjunct2, THEN conjunct1] b1 b2 b3
  have up: "restart_exporter (exporter_up_after 2) example_constants example_unit = (Inr (), w3)"
    by simp
  have m: "EXPORTER_CRASH_MSG example_constants = ''Exporter crashed unexpectedly''"
    by (simp add: example_defs)
  from k dead up show ?thesis by (simp add: m u4_def w3_def)
qed

text \<open>
  A successful probe inside the loop does not by itself exclude the fatal error: the
  exporter is active at the probe of the first attempt, the loop stops, the probe after the
  loop finds it inactive, and \<^verbatim>\<open>restart_exporter\<close> raises after a single restart.
\<close>

theorem restart_exporter_flapping_counterexample:
  "EXPORTER_HEALTH_RETRY_COUNT example_constants = 3 \<and>
   restart_attempt flapping_world example_constants example_unit =
     (Inr True, example_unit\<lparr>calls := [ExporterRestart, Sleep 3, ExporterCheckActive]\<rparr>) \<and>
   restart_exporter flapping_world example_constants example_unit =
     (Inl (ExporterError ''Exporter crashed unexpectedly''
             (Some (ExporterError ''Exporter crashed unexpectedly'' None))),
      example_unit\<lparr>calls :=
        [ExporterRestart, Sleep 3, ExporterCheckActive, ExporterCheckActive]\<rparr>)"
  by (simp add: model_defs example_defs upto_1_3)

section \<open>Configuration changes before the install has completed\<close>

text \<open>
  C3. A unit with \<open>resource_installed\<close> false, one relation and a valid configuration:
  \<^verbatim>\<open>_on_config_changed\<close> defers the event and then goes on in the same call. It validates the
  configuration (the call to the BMC verifier), renders the exporter configuration and
  restarts the exporter; with an invalid port it writes a blocked status. Only the final
  \<^verbatim>\<open>_on_update_status\<close> does nothing.
\<close>

theorem on_config_changed_before_install:
  "\<not> resource_installed not_installed_unit \<and>
   on_config_changed quiet_world example_constants not_installed_unit =
     (Inr (), not_installed_unit\<lparr>calls :=
        [EventDefer, BmcHwVerifier, BmcHwVerifier,
         ExporterRenderConfig 8080 ''debug'' [] 10, ExporterRestart]\<rparr>) \<and>
   on_config_changed quiet_world example_constants
       (not_installed_unit\<lparr>config := example_config\<lparr>exporter_port := 0\<rparr>\<rparr>) =
     (Inr (), not_installed_unit\<lparr>config := example_config\<lparr>exporter_port := 0\<rparr>,
        unit_status := BlockedStatus invalid_port_msg, calls := [EventDefer]\<rparr>)"
  by (simp add: on_config_changed_def model_defs example_defs
      ascii_upper_debug)

text \<open>
  The sibling handler \<^verbatim>\<open>_on_cos_agent_relation_joined\<close> returns right after deferring.
\<close>

lemma on_cos_agent_relation_joined_defers_and_returns:
  "on_cos_agent_relation_joined quiet_world example_constants not_installed_unit =
     (Inr (), not_installed_unit\<lparr>calls := [EventDefer]\<rparr>)"
  by (simp add: on_cos_agent_relation_joined_def model_defs example_defs)

section \<open>Validation of the configuration\<close>

text \<open>
  C6. \<^verbatim>\<open>validate_exporter_configs\<close> checks the port, then the log level, then the credentials,
  and returns at the first failure. A port outside 1..65535 (0 and 65536 for instance) gives
  \<open>(False, "Invalid config: 'exporter-port'")\<close> without looking further; 8080 passes. A level
  whose upper-case form, as \<^verbatim>\<open>str.upper\<close> gives it, is none of DEBUG, INFO, WARNING, ERROR,
  CRITICAL gives \<open>(False, "Invalid config: 'exporter-log-level'")\<close>. For the ASCII levels of
  the claim \<^verbatim>\<open>str.upper\<close> is the ASCII mapping of a to z: there "verbose" fails and "debug"
  passes in any capitalisation. When port and level pass, the credential check decides
  between the credential failure and \<open>(True, "Exporter config is valid.")\<close>.
\<close>

theorem validate_exporter_configs_rules:
  "(\<not> (1 \<le> exporter_port (config s) \<and> exporter_port (config s) \<le> 65535) \<longrightarrow>
      validate_exporter_configs E K s = (Inr (False, invalid_port_msg), s))
 \<and> (exporter_port (config s) = 0 \<or> exporter_port (config s) = 65536 \<longrightarrow>
      validate_exporter_configs E K s = (Inr (False, invalid_port_msg), s))
 \<and> (exporter_port (config s) = 8080 \<longrightarrow>
      fst (validate_exporter_configs E K s) \<noteq> Inr (False, invalid_port_msg))
 \<and> (1 \<le> exporter_port (config s) \<and> exporter_port (config s) \<le> 65535 \<and>
    str_upper E (exporter_log_level (config s)) \<notin>
      {''DEBUG'', ''INFO'', ''WARNING'', ''ERROR'', ''CRITICAL''} \<longrightarrow>
      validate_exporter_configs E K s = (Inr (False, invalid_level_msg), s))
 \<and> (exporter_port (config s) = 8080 \<and> exporter_log_level (config s) = ''verbose'' \<and>
    str_upper E ''verbose'' = ascii_upper ''verbose'' \<longrightarrow>
      validate_exporter_configs E K s = (Inr (False, invalid_level_msg), s))
 \<and> (exporter_port (config s) = 8080 \<and>
    exporter_log_level (config s) \<in> {''debug'', ''DEBUG'', ''DeBuG''} \<and>
    str_upper E (exporter_log_level (config s)) = ascii_upper (exporter_log_level (config s)) \<longrightarrow>
      fst (validate_exporter_configs E K s) \<noteq> Inr (False, invalid_level_msg) \<and>
      fst (validate_exporter_configs E K s) \<noteq> Inr (False, invalid_port_msg))
 \<and> (1 \<le> exporter_port (config s) \<and> exporter_port (config s) \<le> 65535 \<and>
    str_upper E (exporter_log_level (config s)) \<in>
      {''DEBUG'', ''INFO'', ''WARNING'', ''ERROR'', ''CRITICAL''} \<and>
    redfish_conn_params_valid E K s = (Inr v, s1) \<longrightarrow>
      validate_exporter_configs E K s =
        (if v = Some False then Inr (False, invalid_redfish_msg)
         else Inr (True, ''Exporter config is valid.''), s1))"
proof -
  have port: "\<not> (1 \<le> exporter_port (config s) \<and> exporter_port (config s) \<le> 65535) \<Longrightarrow>
      validate_exporter_configs E K s = (Inr (False, invalid_port_msg), s)"
    by (simp add: validate_exporter_configs_def Let_def)
  have level: "1 \<le> exporter_port (config s) \<Longrightarrow> exporter_port (config s) \<le> 65535 \<Longrightarrow>
      str_upper E (exporter_log_level (config s)) \<notin>
        {''DEBUG'', ''INFO'', ''WARNING'', ''ERROR'', ''CRITICAL''} \<Longrightarrow>
      validate_exporter_configs E K s = (Inr (False, invalid_level_msg), s)"
    by (simp add: validate_exporter_configs_def allowed_choices_def Let_def)
  have passed: "1 \<le> exporter_port (config s) \<Longrightarrow> exporter_port (config s) \<le> 65535 \<Longrightarrow>
      str_upper E (exporter_log_level (config s)) \<in>
        {''DEBUG'', ''INFO'', ''WARNING'', ''ERROR'', ''CRITICAL''} \<Longrightarrow>
      validate_exporter_configs E K s =
        (case redfish_conn_params_valid E K s of
           (Inl e, s1) \<Rightarrow> (Inl e, s1)
         | (Inr v, s1) \<Rightarrow>
             if v = Some False then (Inr (False, invalid_redfish_msg), s1)
             else (Inr (True, ''Exporter config is valid.''), s1))"
    by (auto simp: validate_exporter_configs_def allowed_choices_def Let_def)
  have msgs: "invalid_redfish_msg \<noteq> invalid_level_msg" "invalid_redfish_msg \<noteq> invalid_port_msg"
    "invalid_level_msg \<noteq> invalid_port_msg"
    by (simp_all add: invalid_port_msg_def invalid_level_msg_def invalid_redfish_msg_def)
  have c1: "\<not> (1 \<le> exporter_port (config s) \<and> exporter_port (config s) \<le> 65535) \<longrightarrow>
      validate_exporter_configs E K s = (Inr (False, invalid_port_msg), s)"
    using port by blast
  have c2: "exporter_port (config s) = 0 \<or> exporter_port (config s) = 65536 \<longrightarrow>
      validate_exporter_configs E K s = (Inr (False, invalid_port_msg), s)"
    using port by auto
  have c3: "exporter_port (config s) = 8080 \<longrightarrow>
      fst (validate_exporter_configs E K s) \<noteq> Inr (False, invalid_port_msg)"
    using msgs
    by (auto simp: validate_exporter_configs_def Let_def split: sum.splits prod.splits)
  have c4: "1 \<le> exporter_port (config s) \<and> exporter_port (config s) \<le> 65535 \<and>
      str_upper E (exporter_log_level (config s)) \<notin>
        {''DEBUG'', ''INFO'', ''WARNING'', ''ERROR'', ''CRITICAL''} \<longrightarrow>
      validate_exporter_configs E K s = (Inr (False, invalid_level_msg), s)"
    using level by blast
  have c5: "exporter_port (config s) = 8080 \<and> exporter_log_level (config s) = ''verbose'' \<and>
      str_upper E ''verbose'' = ascii_upper ''verbose'' \<longrightarrow>
      validate_exporter_configs E K s = (Inr (False, invalid_level_msg), s)"
    using level by (simp add: ascii_upper_verbose)
  have c6: "exporter_port (config s) = 8080 \<and>
      exporter_log_level (config s) \<in> {''debug'', ''DEBUG'', ''DeBuG''} \<and>
      str_upper E (exporter_log_level (config s)) = ascii_upper (exporter_log_level (config s)) \<longrightarrow>
      fst (validate_exporter_configs E K s) \<noteq> Inr (False, invalid_level_msg) \<and>
      fst (validate_exporter_configs E K s) \<noteq> Inr (False, invalid_port_msg)"
  proof (intro impI, elim conjE)
    assume p: "exporter_port (config s) = 8080"
      and l: "exporter_log_level (config s) \<in> {''debug'', ''DEBUG'', ''DeBuG''}"
      and u: "str_upper E (exporter_log_level (config s)) = ascii_upper (exporter_log_level (config s))"
    from l have "ascii_upper (exporter_log_level (config s)) = ''DEBUG''"
      by (auto simp: ascii_upper_debug ascii_upper_DEBUG ascii_upper_mixed)
    with u have "str_upper E (exporter_log_level (config s)) \<in>
        {''DEBUG'', ''INFO'', ''WARNING'', ''ERROR'', ''CRITICAL''}"
      by simp
    with passed p show "fst (validate_exporter_configs E K s) \<noteq> Inr (False, invalid_level_msg) \<and>
      fst (validate_exporter_configs E K s) \<noteq> Inr (False, invalid_port_msg)"
      using msgs by (auto split: sum.splits prod.splits)
  qed
  have c7: "1 \<le> exporter_port (config s) \<and> exporter_port (config s) \<le> 65535 \<and>
      str_upper E (exporter_log_level (config s)) \<in>
        {''DEBUG'', ''INFO'', ''WARNING'', ''ERROR'', ''CRITICAL''} \<and>
      redfish_conn_params_valid E K s = (Inr v, s1) \<longrightarrow>
      validate_exporter_configs E K s =
        (if v = Some False then Inr (False, invalid_redfish_msg)
         else Inr (True, ''Exporter config is valid.''), s1)"
    using passed by auto
  from c1 c2 c3 c4 c5 c6 c7 show ?thesis by (intro conjI)
qed

theorem validate_exporter_configs_rules_witness:
  "exporter_port (config bad_port_unit) = 0 \<and>
   validate_exporter_configs quiet_world example_constants bad_port_unit =
     (Inr (False, invalid_port_msg), bad_port_unit) \<and>
   exporter_port (config verbose_unit) = 8080 \<and>
   exporter_log_level (config verbose_unit) = ''verbose'' \<and>
   str_upper quiet_world ''verbose'' = ascii_upper ''verbose'' \<and>
   validate_exporter_configs quiet_world example_constants verbose_unit =
     (Inr (False, invalid_level_msg), verbose_unit) \<and>
   exporter_port (config example_unit) = 8080 \<and>
   exporter_log_level (config example_unit) = ''debug'' \<and>
   str_upper quiet_world ''debug'' = ''DEBUG'' \<and>
   validate_exporter_configs quiet_world example_constants example_unit =
     (Inr (True, ''Exporter config is valid.''), example_unit\<lparr>calls := [BmcHwVerifier]\<rparr>)"
proof -
  have p0: "exporter_port (config bad_port_unit) = 0"
    and p1: "exporter_port (config verbose_unit) = 8080"
    and l1: "exporter_log_level (config verbose_unit) = ''verbose''"
    and p2: "exporter_port (config example_unit) = 8080"
    and l2: "exporter_log_level (config example_unit) = ''debug''"
    and u1: "str_upper quiet_world ''verbose'' = ascii_upper ''verbose''"
    by (simp_all add: example_defs)
  have u2: "str_upper quiet_world ''debug'' = ''DEBUG''"
    by (simp add: example_defs ascii_upper_debug)
  have cred: "redfish_conn_params_valid quiet_world example_constants example_unit =
                (Inr None, example_unit\<lparr>calls := [BmcHwVerifier]\<rparr>)"
    by (simp add: model_defs example_defs)
  note t = validate_exporter_configs_rules [where E = quiet_world and K = example_constants]
  from t [where s = bad_port_unit, THEN conjunct2, THEN conjunct1] p0
  have a: "validate_exporter_configs quiet_world example_constants bad_port_unit =
             (Inr (False, invalid_port_msg), bad_port_unit)"
    by simp
  from t [where s = verbose_unit] p1 l1 u1
  have b: "validate_exporter_configs quiet_world example_constants verbose_unit =
             (Inr (False, invalid_level_msg), verbose_unit)"
    by blast
  from t [where s = example_unit and v = None
            and ?s1.0 = "example_unit\<lparr>calls := [BmcHwVerifier]\<rparr>"] p2 l2 u2 cred
  have c: "validate_exporter_configs quiet_world example_constants example_unit =
             (Inr (True, ''Exporter config is valid.''), example_unit\<lparr>calls := [BmcHwVerifier]\<rparr>)"
    by simp
  from p0 a p1 l1 u1 b p2 l2 u2 c show ?thesis by simp
qed

text \<open>
  The level rule follows \<^verbatim>\<open>str.upper\<close> beyond ASCII as well: the level spelled with the
  dotless i passes where \<^verbatim>\<open>str.upper\<close> maps it to \<^verbatim>\<open>INFO\<close>.
\<close>

lemma validate_exporter_configs_dotless_i:
  "validate_exporter_configs unicode_world example_constants dotless_info_unit =
     (Inr (True, ''Exporter config is valid.''), dotless_info_unit\<lparr>calls := [BmcHwVerifier]\<rparr>)"
  by (simp add: model_defs example_defs)

text \<open>
  C7. With a valid port and log level: when the credential check answers \<open>None\<close>, which
  it does when the BMC verifier does not list redfish, the configuration is valid; also
  when it answers \<open>True\<close>. Only the answer \<open>False\<close> gives
  \<open>(False, "Invalid config: 'redfish-username' or 'redfish-password'")\<close>, and that result is
  returned in no other case.
\<close>

theorem validate_exporter_configs_credentials:
  assumes "1 \<le> exporter_port (config s)" and "exporter_port (config s) \<le> 65535"
      and "str_upper E (exporter_log_level (config s)) \<in> allowed_choices"
  shows "(redfish_conn_params_valid E K s = (Inr None, s1) \<longrightarrow>
            validate_exporter_configs E K s = (Inr (True, ''Exporter config is valid.''), s1))
       \<and> (bmc_hw_verifier E s = (Inr bmc_tools, s1) \<and> REDFISH \<notin> set bmc_tools \<longrightarrow>
            validate_exporter_configs E K s = (Inr (True, ''Exporter config is valid.''), s1))
       \<and> (redfish_conn_params_valid E K s = (Inr (Some True), s1) \<longrightarrow>
            validate_exporter_configs E K s = (Inr (True, ''Exporter config is valid.''), s1))
       \<and> (redfish_conn_params_valid E K s = (Inr (Some False), s1) \<longrightarrow>
            validate_exporter_configs E K s = (Inr (False, invalid_redfish_msg), s1))
       \<and> (validate_exporter_configs E K s = (Inr (False, invalid_redfish_msg), s1) \<longrightarrow>
            redfish_conn_params_valid E K s = (Inr (Some False), s1))"
  using assms
  by (auto simp: validate_exporter_configs_def Let_def redfish_conn_params_valid_def
      get_redfish_conn_params_def
      split: sum.splits prod.splits if_splits)

theorem validate_exporter_configs_credentials_witness:
  "1 \<le> exporter_port (config example_unit) \<and> exporter_port (config example_unit) \<le> 65535 \<and>
   str_upper quiet_world (exporter_log_level (config example_unit)) \<in> allowed_choices \<and>
   str_upper (redfish_world (Some (InvalidCredentialsError ''401'')))
       (exporter_log_level (config example_unit)) \<in> allowed_choices \<and>
   redfish_conn_params_valid quiet_world example_constants example_unit =
     (Inr None, example_unit\<lparr>calls := [BmcHwVerifier]\<rparr>) \<and>
   validate_exporter_configs quiet_world example_constants example_unit =
     (Inr (True, ''Exporter config is valid.''), example_unit\<lparr>calls := [BmcHwVerifier]\<rparr>) \<and>
   redfish_conn_params_valid (redfish_world (Some (InvalidCredentialsError ''401'')))
       example_constants example_unit =
     (Inr (Some False), example_unit\<lparr>calls :=
        [BmcHwVerifier, GetBmcAddress, RedfishClient ''https://10.0.0.5'' ''admin'' [] 10 2,
         RedfishLogin 7, RedfishLogout 7]\<rparr>) \<and>
   validate_exporter_configs (redfish_world (Some (InvalidCredentialsError ''401'')))
       example_constants example_unit =
     (Inr (False, invalid_redfish_msg), example_unit\<lparr>calls :=
        [BmcHwVerifier, GetBmcAddress, RedfishClient ''https://10.0.0.5'' ''admin'' [] 10 2,
         RedfishLogin 7, RedfishLogout 7]\<rparr>)"
proof -
  define r where "r = example_unit\<lparr>calls :=
        [BmcHwVerifier, GetBmcAddress, RedfishClient ''https://10.0.0.5'' ''admin'' [] 10 2,
         RedfishLogin 7, RedfishLogout 7]\<rparr>"
  have h1: "1 \<le> exporter_port (config example_unit)"
    and h2: "exporter_port (config example_unit) \<le> 65535"
    by (simp_all add: example_defs)
  have h3: "str_upper quiet_world (exporter_log_level (config example_unit)) \<in> allowed_choices"
    and h3r: "str_upper (redfish_world (Some (InvalidCredentialsError ''401'')))
                (exporter_log_level (config example_unit)) \<in> allowed_choices"
    by (simp_all add: example_defs ascii_upper_debug allowed_choices_def)
  have none: "redfish_conn_params_valid quiet_world example_constants example_unit =
                (Inr None, example_unit\<lparr>calls := [BmcHwVerifier]\<rparr>)"
    by (simp add: model_defs example_defs)
  have bad: "redfish_conn_params_valid (redfish_world (Some (InvalidCredentialsError ''401'')))
               example_constants example_unit = (Inr (Some False), r)"
    by (simp add: r_def model_defs example_defs)
  from validate_exporter_configs_credentials
         [OF h1 h2 h3, where K = example_constants
            and ?s1.0 = "example_unit\<lparr>calls := [BmcHwVerifier]\<rparr>", THEN conjunct1] none
  have a: "validate_exporter_configs quiet_world example_constants example_unit =
     (Inr (True, ''Exporter config is valid.''), example_unit\<lparr>calls := [BmcHwVerifier]\<rparr>)"
    by simp
  from validate_exporter_configs_credentials
         [OF h1 h2 h3r, where K = example_constants and ?s1.0 = r] bad
  have b: "validate_exporter_configs (redfish_world (Some (InvalidCredentialsError ''401'')))
             example_constants example_unit = (Inr (False, invalid_redfish_msg), r)"
    by blast
  from h1 h2 h3 h3r none a bad b show ?thesis by (simp add: r_def)
qed

section \<open>The redfish session\<close>

text \<open>
  C9. Once \<^verbatim>\<open>redfish_client\<close> has returned a client object, \<^verbatim>\<open>redfish_conn_params_valid\<close>
  calls the login and then the logout of that object, whatever the login does (return,
  \<open>InvalidCredentialsError\<close>, any other exception): the logout is the last call made before
  the function is left. When the logout itself returns, the result is \<open>True\<close> after a
  successful login and \<open>False\<close> after a login that raised an exception of the \<^verbatim>\<open>Exception\<close>
  hierarchy.
\<close>

theorem redfish_conn_params_valid_logout:
  assumes "get_redfish_conn_params E s = (Inr params, s1)"
      and "params \<noteq> []"
      and "redfish_client E (dict_get params ''host'' '''') (dict_get params ''username'' '''')
             (dict_get params ''password'' '''') (REDFISH_TIMEOUT K) (REDFISH_MAX_RETRY K) s1
           = (Inr redfish_obj, s2)"
  shows "calls (snd (redfish_conn_params_valid E K s)) =
           calls s2 @ [RedfishLogin redfish_obj, RedfishLogout redfish_obj]
       \<and> (answer_unit E (calls s2 @ [RedfishLogin redfish_obj]) (RedfishLogout redfish_obj) = None \<longrightarrow>
            fst (redfish_conn_params_valid E K s) =
              (case answer_unit E (calls s2) (RedfishLogin redfish_obj) of
                 None \<Rightarrow> Inr (Some True)
               | Some (InvalidCredentialsError m) \<Rightarrow> Inr (Some False)
               | Some (BaseExc m) \<Rightarrow> Inl (BaseExc m)
               | Some e \<Rightarrow> Inr (Some False)))"
  using assms
  by (auto simp: redfish_conn_params_valid_def call_unit_def record_call_def after_try_def
      split: option.splits exn.splits)

theorem redfish_conn_params_valid_logout_witness:
  "redfish_client (redfish_world None) ''https://10.0.0.5'' ''admin'' [] 10 2
       (example_unit\<lparr>calls := [BmcHwVerifier, GetBmcAddress]\<rparr>) =
     (Inr 7, example_unit\<lparr>calls :=
        [BmcHwVerifier, GetBmcAddress, RedfishClient ''https://10.0.0.5'' ''admin'' [] 10 2]\<rparr>) \<and>
   redfish_conn_params_valid (redfish_world None) example_constants example_unit =
     (Inr (Some True), example_unit\<lparr>calls :=
        [BmcHwVerifier, GetBmcAddress, RedfishClient ''https://10.0.0.5'' ''admin'' [] 10 2,
         RedfishLogin 7, RedfishLogout 7]\<rparr>) \<and>
   redfish_conn_params_valid (redfish_world (Some (InvalidCredentialsError ''401'')))
       example_constants example_unit =
     (Inr (Some False), example_unit\<lparr>calls :=
        [BmcHwVerifier, GetBmcAddress, RedfishClient ''https://10.0.0.5'' ''admin'' [] 10 2,
         RedfishLogin 7, RedfishLogout 7]\<rparr>) \<and>
   redfish_conn_params_valid (redfish_world (Some (OtherException ''timed out'')))
       example_constants example_unit =
     (Inr (Some False), example_unit\<lparr>calls :=
        [BmcHwVerifier, GetBmcAddress, RedfishClient ''https://10.0.0.5'' ''admin'' [] 10 2,
         RedfishLogin 7, RedfishLogout 7]\<rparr>) \<and>
   calls (snd (redfish_conn_params_valid (redfish_world (Some (BaseExc ''KeyboardInterrupt'')))
                 example_constants example_unit)) =
     [BmcHwVerifier, GetBmcAddress, RedfishClient ''https://10.0.0.5'' ''admin'' [] 10 2,
      RedfishLogin 7, RedfishLogout 7]"
proof -
  define params where
    "params = [(''host'', ''https://10.0.0.5''), (''username'', ''admin''), (''password'', [])]"
  define g where "g = example_unit\<lparr>calls := [BmcHwVerifier, GetBmcAddress]\<rparr>"
  define c where "c = example_unit\<lparr>calls :=
        [BmcHwVerifier, GetBmcAddress, RedfishClient ''https://10.0.0.5'' ''admin'' [] 10 2]\<rparr>"
  have ne: "params \<noteq> []" by (simp add: params_def)
  have gp: "get_redfish_conn_params (redfish_world a) example_unit = (Inr params, g)" for a
    by (simp add: params_def g_def model_defs example_defs)
  have cl: "redfish_client (redfish_world a) (dict_get params ''host'' [])
              (dict_get params ''username'' []) (dict_get params ''password'' [])
              (REDFISH_TIMEOUT example_constants) (REDFISH_MAX_RETRY example_constants) g =
            (Inr 7, c)" for a
    by (simp add: params_def g_def c_def model_defs example_defs)
  note t = redfish_conn_params_valid_logout [OF gp ne cl]
  have l: "answer_unit (redfish_world a) (calls c) (RedfishLogin 7) = a"
    and o: "answer_unit (redfish_world a) (calls c @ [RedfishLogin 7]) (RedfishLogout 7) = None" for a
    by (simp_all add: example_defs)
  have res: "redfish_conn_params_valid (redfish_world a) example_constants example_unit =
          (fst (redfish_conn_params_valid (redfish_world a) example_constants example_unit),
           example_unit\<lparr>calls := calls c @ [RedfishLogin 7, RedfishLogout 7]\<rparr>)" for a
  proof -
    have "only_calls example_unit
            (snd (redfish_conn_params_valid (redfish_world a) example_constants example_unit))"
      by (rule only_calls_redfish_conn_params_valid)
    moreover have "calls (snd (redfish_conn_params_valid (redfish_world a) example_constants example_unit))
            = calls c @ [RedfishLogin 7, RedfishLogout 7]"
      using t [of a] by simp
    ultimately have "snd (redfish_conn_params_valid (redfish_world a) example_constants example_unit)
       = example_unit\<lparr>calls := calls c @ [RedfishLogin 7, RedfishLogout 7]\<rparr>"
      unfolding only_calls_def
      by (metis (no_types, lifting) charm.surjective charm.update_convs(6))
    then show ?thesis by (metis prod.collapse)
  qed
  have f: "fst (redfish_conn_params_valid (redfish_world a) example_constants example_unit) =
             (case a of None \<Rightarrow> Inr (Some True)
              | Some (InvalidCredentialsError m) \<Rightarrow> Inr (Some False)
              | Some (BaseExc m) \<Rightarrow> Inl (BaseExc m)
              | Some e \<Rightarrow> Inr (Some False))" for a
    using t [of a] l [of a] o [of a] by simp
  have cc: "calls c = [BmcHwVerifier, GetBmcAddress, RedfishClient ''https://10.0.0.5'' ''admin'' [] 10 2]"
    by (simp add: c_def)
  have c0: "redfish_client (redfish_world None) ''https://10.0.0.5'' ''admin'' [] 10 2 g = (Inr 7, c)"
    by (simp add: g_def c_def model_defs example_defs)
  have r1: "redfish_conn_params_valid (redfish_world None) example_constants example_unit =
     (Inr (Some True), example_unit\<lparr>calls := calls c @ [RedfishLogin 7, RedfishLogout 7]\<rparr>)"
    using res [of None] f [of None] by simp
  have r2: "redfish_conn_params_valid (redfish_world (Some (InvalidCredentialsError ''401'')))
       example_constants example_unit =
     (Inr (Some False), example_unit\<lparr>calls := calls c @ [RedfishLogin 7, RedfishLogout 7]\<rparr>)"
    using res [of "Some (InvalidCredentialsError ''401'')"]
      f [of "Some (InvalidCredentialsError ''401'')"] by simp
  have r3: "redfish_conn_params_valid (redfish_world (Some (OtherException ''timed out'')))
       example_constants example_unit =
     (Inr (Some False), example_unit\<lparr>calls := calls c @ [RedfishLogin 7, RedfishLogout 7]\<rparr>)"
    using res [of "Some (OtherException ''timed out'')"]
      f [of "Some (OtherException ''timed out'')"] by simp
  have r4: "calls (snd (redfish_conn_params_valid (redfish_world (Some (BaseExc ''KeyboardInterrupt'')))
                 example_constants example_unit)) = calls c @ [RedfishLogin 7, RedfishLogout 7]"
    using t [of "Some (BaseExc ''KeyboardInterrupt'')"] by simp
  from c0 r1 r2 r3 r4 show ?thesis by (simp add: cc g_def c_def)
qed

section \<open>Removal\<close>

text \<open>
  C10. After \<^verbatim>\<open>_on_remove\<close> has returned, \<open>resource_installed\<close> is false, and
  \<open>exporter_installed\<close> is true exactly when the uninstall of the exporter answered
  \<open>False\<close>. The handler does return whenever the removal of the tools and the uninstall of
  the exporter return, with \<open>exporter_installed\<close> set to the negation of the uninstall's
  answer.
\<close>

theorem on_remove_flags:
  "(on_remove E s = (Inr (), s') \<longrightarrow>
      \<not> resource_installed s' \<and>
      (exporter_installed s' \<longleftrightarrow>
         answer_bool E (calls s @ [HwRemove]) ExporterUninstall = Inr False))
 \<and> (answer_unit E (calls s) HwRemove = None \<and>
    answer_bool E (calls s @ [HwRemove]) ExporterUninstall = Inr success \<longrightarrow>
      on_remove E s =
        (Inr (), s\<lparr>resource_installed := False, exporter_installed := \<not> success,
                   calls := calls s @ [HwRemove, ExporterUninstall]\<rparr>))"
  by (auto simp: on_remove_def call_unit_def call_bool_def record_call_def
      split: option.splits sum.splits)

theorem on_remove_flags_witness:
  "answer_unit quiet_world (calls example_unit) HwRemove = None \<and>
   answer_bool quiet_world (calls example_unit @ [HwRemove]) ExporterUninstall = Inr True \<and>
   on_remove quiet_world example_unit =
     (Inr (), example_unit\<lparr>resource_installed := False, exporter_installed := False,
                calls := [HwRemove, ExporterUninstall]\<rparr>) \<and>
   answer_unit failing_uninstall_world (calls example_unit) HwRemove = None \<and>
   answer_bool failing_uninstall_world (calls example_unit @ [HwRemove]) ExporterUninstall =
     Inr False \<and>
   on_remove failing_uninstall_world example_unit =
     (Inr (), example_unit\<lparr>resource_installed := False, exporter_installed := True,
                calls := [HwRemove, ExporterUninstall]\<rparr>) \<and>
   \<not> resource_installed
       (example_unit\<lparr>resource_installed := False, exporter_installed := True,
                calls := [HwRemove, ExporterUninstall]\<rparr>) \<and>
   exporter_installed
       (example_unit\<lparr>resource_installed := False, exporter_installed := True,
                calls := [HwRemove, ExporterUninstall]\<rparr>)"
proof -
  define a where "a = example_unit\<lparr>resource_installed := False, exporter_installed := False,
                calls := [HwRemove, ExporterUninstall]\<rparr>"
  define b where "b = example_unit\<lparr>resource_installed := False, exporter_installed := True,
                calls := [HwRemove, ExporterUninstall]\<rparr>"
  have ua: "answer_unit quiet_world (calls example_unit) HwRemove = None"
    and qa: "answer_bool quiet_world (calls example_unit @ [HwRemove]) ExporterUninstall = Inr True"
    and ub: "answer_unit failing_uninstall_world (calls example_unit) HwRemove = None"
    and qb: "answer_bool failing_uninstall_world (calls example_unit @ [HwRemove])
               ExporterUninstall = Inr False"
    by (simp_all add: example_defs)
  have c0: "calls example_unit = []" by (simp add: example_defs)
  from on_remove_flags [where E = quiet_world and s = example_unit and success = True,
         THEN conjunct2] ua qa
  have ra: "on_remove quiet_world example_unit = (Inr (), a)"
    by (simp add: a_def c0)
  from on_remove_flags [where E = failing_uninstall_world and s = example_unit
         and success = False, THEN conjunct2] ub qb
  have rb: "on_remove failing_uninstall_world example_unit = (Inr (), b)"
    by (simp add: b_def c0)
  from on_remove_flags [where E = failing_uninstall_world and s = example_unit and s' = b,
         THEN conjunct1] rb qb
  have fb: "\<not> resource_installed b \<and> exporter_installed b"
    by simp
  from ua qa ra ub qb rb fb show ?thesis by (simp only: a_def b_def simp_thms)
qed

end
